theory Spec2Isabelle
  imports Complex_Main
begin

section \<open>DeviceOrientationHelper: data\<close>

text \<open>
  The helper is one JavaScript module (\<^verbatim>\<open>src/helpers/DeviceOrientationHelper.js\<close>) whose
  state is a handful of module variables, and whose control flow is driven by the browser:
  promises that settle later, click listeners, sensor and screen-rotation events.
  The model keeps the module variables and the part of the browser they talk to in one
  record, and gives every source function as a function on that record.

  JavaScript numbers are IEEE doubles; they are real numbers here, so rounding is not
  part of the model.
\<close>

text \<open>
  A property of an incoming event, or \<^verbatim>\<open>window.orientation\<close>: absent, \<^verbatim>\<open>null\<close>, or a number.
\<close>

datatype field = Undefined | Null | Num real

record orientation_event =
  alpha :: field
  beta :: field
  gamma :: field

text \<open>Property lookup \<^verbatim>\<open>event[label]\<close>; a name the event does not carry is undefined.\<close>

definition property :: "orientation_event \<Rightarrow> string \<Rightarrow> field" where
  "property ev label =
     (if label = ''alpha'' then alpha ev
      else if label = ''beta'' then beta ev
      else if label = ''gamma'' then gamma ev
      else Undefined)"

text \<open>\<^verbatim>\<open>v || 0\<close> for a field: the falsy values \<^verbatim>\<open>undefined\<close>, \<^verbatim>\<open>null\<close> and 0 give 0.\<close>

fun or_zero :: "field \<Rightarrow> real" where
  "or_zero (Num x) = x"
| "or_zero Null = 0"
| "or_zero Undefined = 0"

subsection \<open>The math capability (THREE)\<close>

text \<open>
  \<^verbatim>\<open>spec.THREE\<close> is the caller's three.js object; it is not part of this repository, so its
  arithmetic is a parameter. Its classes hold plain components; the four methods the helper
  calls are the fields of \<open>three\<close>. Each \<^verbatim>\<open>set...\<close> method overwrites its receiver, so the model
  gives it as the value written; \<^verbatim>\<open>multiply\<close> is receiver times argument.
\<close>

record quaternion =
  qx :: real
  qy :: real
  qz :: real
  qw :: real

record euler =
  ex :: real
  ey :: real
  ez :: real
  order :: string

record vector3 =
  vx :: real
  vy :: real
  vz :: real

record three =
  setFromEuler :: "euler \<Rightarrow> quaternion"
  multiply :: "quaternion \<Rightarrow> quaternion \<Rightarrow> quaternion"
  setFromAxisAngle :: "vector3 \<Rightarrow> real \<Rightarrow> quaternion"
  setFromQuaternion :: "quaternion \<Rightarrow> string \<Rightarrow> euler"

text \<open>\<^verbatim>\<open>_threeInstances\<close>: the scratch objects, with the library whose methods they carry.\<close>

record instances =
  lib :: three
  quat :: quaternion
  q0 :: quaternion
  q1 :: quaternion
  euler :: euler
  zee :: vector3

subsection \<open>Configuration\<close>

text \<open>
  \<^verbatim>\<open>_spec = Object.assign({}, _defaultSpec, spec)\<close>: the merged options. A DOM element is
  a number; a callback is known by whether it was supplied; \<^verbatim>\<open>THREE\<close> is \<^verbatim>\<open>null\<close> or the
  library. \<^verbatim>\<open>debugAlerts\<close> is read by \<^verbatim>\<open>display_alert\<close> though \<^verbatim>\<open>_defaultSpec\<close> names the key
  \<^verbatim>\<open>debug\<close>; absent, it is falsy.
\<close>

record config =
  THREE :: "three option"
  DOMTrigger :: "nat option"
  DOMTriggerOnClick :: bool
  DOMRetryTrigger :: "nat option"
  isRejectIfMissing :: bool
  debug :: bool
  debugAlerts :: bool

definition defaultSpec :: config where
  "defaultSpec = \<lparr> THREE = None, DOMTrigger = None, DOMTriggerOnClick = False,
     DOMRetryTrigger = None, isRejectIfMissing = False, debug = False, debugAlerts = False \<rparr>"

subsection \<open>The browser side\<close>

datatype target = Window | Elem nat

text \<open>\<^verbatim>\<open>window.DeviceOrientationEvent\<close>: undefined, or defined with or without a
  \<^verbatim>\<open>requestPermission\<close> function.\<close>

datatype facility = DOE_undefined | DOE_defined bool

fun has_requestPermission :: "facility \<Rightarrow> bool" where
  "has_requestPermission DOE_undefined = False"
| "has_requestPermission (DOE_defined b) = b"

datatype settle = Pending | Fulfilled | Rejected

text \<open>
  The two closures registered as click listeners. \<open>TriggerClick p\<close> is the anonymous listener
  \<^verbatim>\<open>init\<close> puts on \<^verbatim>\<open>DOMTrigger\<close>; \<open>Retry t n p\<close> is \<^verbatim>\<open>retry\<close>, with the captured
  \<^verbatim>\<open>DOMRetryTrigger\<close> and \<^verbatim>\<open>retriesCount\<close>. In both, \<open>p\<close> is the promise whose
  \<^verbatim>\<open>accept\<close>/\<^verbatim>\<open>reject\<close> the closure captured.
\<close>

datatype listener = TriggerClick nat | Retry target nat nat

datatype jserror = Error string | TypeError

datatype rotation = Angles "real list" | Quat quaternion

record world =
  g_spec :: config
  g_angles :: "real list"
  g_isEnabled :: bool
  g_deviceOrientation :: "orientation_event option"
  g_screenOrientation :: real
  g_THREE :: "three option"
  g_isThree :: bool
  g_threeInstances :: "instances option"
  window_orientation :: field
  window_DeviceOrientationEvent :: facility
  listen_orientationchange :: bool
  listen_deviceorientation :: bool
  click_listeners :: "(target \<times> listener) list"
  permission_requests :: "(nat \<times> nat) list"
  promises :: "settle list"
  alerts :: "string list"
  onclick_calls :: nat

text \<open>
  The module as loaded, in a browser with the given orientation facility and screen
  rotation. \<^verbatim>\<open>_spec\<close> is \<^verbatim>\<open>null\<close> until \<^verbatim>\<open>init\<close> assigns it and \<^verbatim>\<open>_threeInstances\<close> is empty
  until \<^verbatim>\<open>init_threeInstances\<close> fills it; \<^verbatim>\<open>_spec\<close> is read only by code that \<^verbatim>\<open>init\<close>
  started, so the model may hold the defaults there from the start.
\<close>

definition loaded :: "facility \<Rightarrow> field \<Rightarrow> world" where
  "loaded doe wo = \<lparr> g_spec = defaultSpec, g_angles = [0, 0, 0, 0], g_isEnabled = False,
     g_deviceOrientation = None, g_screenOrientation = 0, g_THREE = None, g_isThree = False,
     g_threeInstances = None, window_orientation = wo, window_DeviceOrientationEvent = doe,
     listen_orientationchange = False, listen_deviceorientation = False,
     click_listeners = [], permission_requests = [], promises = [], alerts = [],
     onclick_calls = 0 \<rparr>"

section \<open>The module's functions\<close>

definition d2r :: real where
  "d2r = pi / 180"

text \<open>\<^verbatim>\<open>get_deviceEulerAngle(label)\<close>, with \<open>device\<close> the value of \<^verbatim>\<open>_deviceOrientation\<close>, which \<^verbatim>\<open>update\<close>
  has found non-null before it calls. In the product \<^verbatim>\<open>_d2r * device[label]\<close> a \<^verbatim>\<open>null\<close> field
  converts to 0.\<close>

definition get_deviceEulerAngle :: "orientation_event \<Rightarrow> string \<Rightarrow> real" where
  "get_deviceEulerAngle device label =
     (case property device label of
        Undefined \<Rightarrow> 0
      | Null \<Rightarrow> d2r * 0
      | Num x \<Rightarrow> d2r * x)"

definition add_eventListeners :: "world \<Rightarrow> world" where
  "add_eventListeners w =
     w\<lparr> g_isEnabled := True, listen_orientationchange := True, listen_deviceorientation := True \<rparr>"

definition remove_eventListeners :: "world \<Rightarrow> world" where
  "remove_eventListeners w =
     w\<lparr> g_isEnabled := False, listen_orientationchange := False, listen_deviceorientation := False \<rparr>"

definition onDeviceOrientationChangeEvent :: "orientation_event \<Rightarrow> world \<Rightarrow> world" where
  "onDeviceOrientationChangeEvent event w =
     (if alpha event = Null \<or> beta event = Null \<or> gamma event = Null then w
      else w\<lparr> g_deviceOrientation := Some event \<rparr>)"

definition onScreenOrientationChangeEvent :: "world \<Rightarrow> world" where
  "onScreenOrientationChangeEvent w =
     w\<lparr> g_screenOrientation := or_zero (window_orientation w) * d2r \<rparr>"

text \<open>\<^verbatim>\<open>new Quaternion()\<close> is the identity and \<^verbatim>\<open>new Euler()\<close> is zero in order XYZ, as three.js
  constructs them; both are overwritten before they are read.\<close>

definition init_threeInstances :: "three \<Rightarrow> world \<Rightarrow> world" where
  "init_threeInstances T w =
     w\<lparr> g_threeInstances := Some \<lparr> lib = T,
          quat = \<lparr> qx = 0, qy = 0, qz = 0, qw = 1 \<rparr>,
          q0 = \<lparr> qx = 0, qy = 0, qz = 0, qw = 1 \<rparr>,
          q1 = \<lparr> qx = - sqrt (1 / 2), qy = 0, qz = 0, qw = sqrt (1 / 2) \<rparr>,
          euler = \<lparr> ex = 0, ey = 0, ez = 0, order = ''XYZ'' \<rparr>,
          zee = \<lparr> vx = 0, vy = 0, vz = 1 \<rparr> \<rparr> \<rparr>"

text \<open>\<^verbatim>\<open>set_quaternion\<close> is only ever called on \<^verbatim>\<open>_threeInstances.quat\<close>; the model writes the
  three objects it mutates (\<^verbatim>\<open>euler\<close>, \<^verbatim>\<open>quat\<close>, \<^verbatim>\<open>q0\<close>) back into the instances.\<close>

definition set_quaternion :: "instances \<Rightarrow> real \<Rightarrow> real \<Rightarrow> real \<Rightarrow> real \<Rightarrow> instances" where
  "set_quaternion ti a b g orient =
     (let e = \<lparr> ex = b, ey = a, ez = - g, order = ''YXZ'' \<rparr>;
          q = setFromEuler (lib ti) e;
          q' = multiply (lib ti) q (q1 ti);
          z = setFromAxisAngle (lib ti) (zee ti) (- orient);
          q'' = multiply (lib ti) q' z
      in ti\<lparr> euler := e, quat := q'', q0 := z \<rparr>)"

definition display_alert :: "string \<Rightarrow> world \<Rightarrow> world" where
  "display_alert msg w = (if debugAlerts (g_spec w) then w\<lparr> alerts := alerts w @ [msg] \<rparr> else w)"

text \<open>Settling a promise: the first call of \<^verbatim>\<open>accept\<close> or \<^verbatim>\<open>reject\<close> wins.\<close>

definition settle_promise :: "settle \<Rightarrow> nat \<Rightarrow> world \<Rightarrow> world" where
  "settle_promise v p w =
     (if p < length (promises w) \<and> promises w ! p = Pending
      then w\<lparr> promises := (promises w)[p := v] \<rparr> else w)"

abbreviation accept :: "nat \<Rightarrow> world \<Rightarrow> world" where
  "accept \<equiv> settle_promise Fulfilled"

abbreviation reject :: "nat \<Rightarrow> world \<Rightarrow> world" where
  "reject \<equiv> settle_promise Rejected"

text \<open>
  \<^verbatim>\<open>request_API(retriesCount)\<close>. The promise it returns is consumed in one of two ways: \<^verbatim>\<open>init\<close>
  returns it, or the caller chains \<^verbatim>\<open>.then(accept).catch(reject)\<close> onto it, which only hands
  its outcome to the caller's own promise. So the model passes the index \<open>p\<close> of the promise
  that the outcome finally settles. With a permission function present the call leaves a
  request in flight, \<open>(retriesCount, p)\<close>, until the browser answers it.
\<close>

definition request_API :: "nat \<Rightarrow> nat \<Rightarrow> world \<Rightarrow> world" where
  "request_API retriesCount p w =
     (if has_requestPermission (window_DeviceOrientationEvent w)
      then w\<lparr> permission_requests := permission_requests w @ [(retriesCount, p)] \<rparr>
      else if isRejectIfMissing (g_spec w)
      then reject p (display_alert ''DeviceOrientationEvent missing'' w)
      else accept p (display_alert ''DeviceOrientationEvent available without requestPermission''
             (add_eventListeners w)))"

text \<open>The \<^verbatim>\<open>.then\<close> callback of the permission request.\<close>

definition requestPermission_then :: "nat \<Rightarrow> string \<Rightarrow> world \<Rightarrow> world" where
  "requestPermission_then p response w =
     (let w1 = display_alert (''DeviceOrientationEvent response = '' @ response) w;
          w2 = (if response = ''granted''
                then display_alert ''DeviceOrientationEvent requestPermission granted''
                       (add_eventListeners w1)
                else display_alert
                       ''DeviceOrientationEvent requestPermission refused. It will not work as well''
                       w1)
      in accept p w2)"

text \<open>\<^verbatim>\<open>error.toString().split(':').shift().toUpperCase()\<close>, on the error's string (ASCII).\<close>

definition toUpperCase :: "char \<Rightarrow> char" where
  "toUpperCase c =
     (let n = (of_char c :: nat) in if 97 \<le> n \<and> n \<le> 122 then char_of (n - 32) else c)"

definition errorType :: "string \<Rightarrow> string" where
  "errorType error = map toUpperCase (takeWhile (\<lambda>c. c \<noteq> CHR '':'') error)"

text \<open>The \<^verbatim>\<open>.catch\<close> callback of the permission request, for the request \<open>(retriesCount, p)\<close>;
  its \<^verbatim>\<open>console.error\<close> line has no effect on the module.\<close>

definition requestPermission_catch :: "nat \<Rightarrow> nat \<Rightarrow> string \<Rightarrow> world \<Rightarrow> world" where
  "requestPermission_catch retriesCount p error w =
     (let w1 = display_alert (''DeviceOrientationEvent error = '' @ error) w
      in if errorType error = ''NOTALLOWEDERROR'' \<and> DOMTrigger (g_spec w1) = None
            \<and> retriesCount = 0
         then (let t = (case DOMRetryTrigger (g_spec w1) of None \<Rightarrow> Window | Some e \<Rightarrow> Elem e)
               in w1\<lparr> click_listeners := click_listeners w1 @ [(t, Retry t retriesCount p)] \<rparr>)
         else reject p w1)"

text \<open>The closure \<^verbatim>\<open>retry\<close>.\<close>

definition retry :: "target \<Rightarrow> nat \<Rightarrow> nat \<Rightarrow> world \<Rightarrow> world" where
  "retry t retriesCount p w =
     (let w1 = display_alert ''DeviceOrientationEvent retry...'' w;
          w2 = w1\<lparr> click_listeners := remove1 (t, Retry t retriesCount p) (click_listeners w1) \<rparr>
      in request_API (retriesCount + 1) p w2)"

text \<open>The click listener that \<^verbatim>\<open>init\<close> puts on \<^verbatim>\<open>DOMTrigger\<close>; it stays registered.\<close>

definition trigger_click :: "nat \<Rightarrow> world \<Rightarrow> world" where
  "trigger_click p w =
     (let w1 = (if DOMTriggerOnClick (g_spec w) then w\<lparr> onclick_calls := onclick_calls w + 1 \<rparr>
                else w)
      in request_API 0 p w1)"

text \<open>\<^verbatim>\<open>init(spec)\<close>: returns the index of the ready promise with the new world.\<close>

definition init :: "config \<Rightarrow> world \<Rightarrow> nat \<times> world" where
  "init spec w =
     (let w1 = w\<lparr> g_spec := spec, g_THREE := THREE spec, g_isThree := (THREE spec \<noteq> None) \<rparr>;
          w2 = (case THREE spec of Some T \<Rightarrow> init_threeInstances T w1 | None \<Rightarrow> w1);
          w3 = onScreenOrientationChangeEvent w2;
          p = length (promises w3);
          w4 = w3\<lparr> promises := promises w3 @ [Pending] \<rparr>
      in case DOMTrigger spec of
           Some d \<Rightarrow> (p, w4\<lparr> click_listeners := click_listeners w4 @ [(Elem d, TriggerClick p)] \<rparr>)
         | None \<Rightarrow> (p, request_API 0 p w4))"

text \<open>\<^verbatim>\<open>compute_rotationX/Y/Z\<close>: the three differ only in the component they read.\<close>

definition compute_rotation ::
  "(euler \<Rightarrow> real) \<Rightarrow> quaternion \<Rightarrow> world \<Rightarrow> (jserror + real) \<times> world" where
  "compute_rotation component q w =
     (if \<not> g_isThree w then (Inl (Error ''Please provide THREE''), w)
      else case g_threeInstances w of
             None \<Rightarrow> (Inl TypeError, w)
           | Some ti \<Rightarrow>
               (let e = setFromQuaternion (lib ti) q ''YXZ''
                in (Inr (component e), w\<lparr> g_threeInstances := Some (ti\<lparr> euler := e \<rparr>) \<rparr>)))"

definition compute_rotationX :: "quaternion \<Rightarrow> world \<Rightarrow> (jserror + real) \<times> world" where
  "compute_rotationX = compute_rotation ex"

definition compute_rotationY :: "quaternion \<Rightarrow> world \<Rightarrow> (jserror + real) \<times> world" where
  "compute_rotationY = compute_rotation ey"

definition compute_rotationZ :: "quaternion \<Rightarrow> world \<Rightarrow> (jserror + real) \<times> world" where
  "compute_rotationZ = compute_rotation ez"

text \<open>\<^verbatim>\<open>update()\<close>: \<open>Inr None\<close> is the return value \<^verbatim>\<open>null\<close>.\<close>

definition update :: "world \<Rightarrow> (jserror + rotation option) \<times> world" where
  "update w =
     (if \<not> g_isEnabled w then (Inr None, w)
      else case g_deviceOrientation w of
        None \<Rightarrow> (Inr None, w)
      | Some device \<Rightarrow>
          (let a = get_deviceEulerAngle device ''alpha'';
               b = get_deviceEulerAngle device ''beta'';
               g = get_deviceEulerAngle device ''gamma''
           in if g_isThree w
              then (case g_threeInstances w of
                      None \<Rightarrow> (Inl TypeError, w)
                    | Some ti \<Rightarrow>
                        (let ti' = set_quaternion ti a b g (g_screenOrientation w)
                         in (Inr (Some (Quat (quat ti'))), w\<lparr> g_threeInstances := Some ti' \<rparr>)))
              else (let buf = (g_angles w)[0 := a, 1 := b, 2 := g, 3 := g_screenOrientation w]
                    in (Inr (Some (Angles buf)), w\<lparr> g_angles := buf \<rparr>))))"

definition destroy :: "world \<Rightarrow> world" where
  "destroy w = remove_eventListeners w"

section \<open>The browser driving the module\<close>

text \<open>
  What can happen to a loaded module, one event at a time. A click on an element runs the
  listeners on that element and then, bubbling, the listeners on \<^verbatim>\<open>window\<close>; a listener
  removed before its turn does not run. A sensor or screen-rotation event reaches its
  handler only while the listener is attached. The browser answers the \<open>i\<close>-th request in
  flight with the response string, or fails it with an error (given by its string).
  \<open>Compute\<close> stands for a call of any of \<^verbatim>\<open>compute_rotationX/Y/Z\<close>: they change the world in
  the same way.
\<close>

fun run_listener :: "listener \<Rightarrow> world \<Rightarrow> world" where
  "run_listener (TriggerClick p) w = trigger_click p w"
| "run_listener (Retry t n p) w = retry t n p w"

fun fire :: "(target \<times> listener) list \<Rightarrow> world \<Rightarrow> world" where
  "fire [] w = w"
| "fire (l # ls) w =
     fire ls (if l \<in> set (click_listeners w) then run_listener (snd l) w else w)"

definition click :: "target \<Rightarrow> world \<Rightarrow> world" where
  "click t w =
     (let w1 = fire (filter (\<lambda>l. fst l = t) (click_listeners w)) w
      in if t = Window then w1
         else fire (filter (\<lambda>l. fst l = Window) (click_listeners w1)) w1)"

datatype event =
    Init config
  | Click target
  | PermissionAnswer nat string
  | PermissionError nat string
  | Sensor orientation_event
  | Rotate field
  | Update
  | Destroy
  | Compute quaternion

definition take_request :: "nat \<Rightarrow> world \<Rightarrow> world" where
  "take_request i w =
     w\<lparr> permission_requests := take i (permission_requests w) @ drop (Suc i) (permission_requests w) \<rparr>"

fun step :: "event \<Rightarrow> world \<Rightarrow> world" where
  "step (Init spec) w = snd (init spec w)"
| "step (Click t) w = click t w"
| "step (PermissionAnswer i response) w =
     (if i < length (permission_requests w)
      then requestPermission_then (snd (permission_requests w ! i)) response (take_request i w)
      else w)"
| "step (PermissionError i error) w =
     (if i < length (permission_requests w)
      then requestPermission_catch (fst (permission_requests w ! i))
             (snd (permission_requests w ! i)) error (take_request i w)
      else w)"
| "step (Sensor ev) w =
     (if listen_deviceorientation w then onDeviceOrientationChangeEvent ev w else w)"
| "step (Rotate r) w =
     (let w1 = w\<lparr> window_orientation := r \<rparr>
      in if listen_orientationchange w1 then onScreenOrientationChangeEvent w1 else w1)"
| "step Update w = snd (update w)"
| "step Destroy w = destroy w"
| "step (Compute q) w = snd (compute_rotationX q w)"

fun run :: "event list \<Rightarrow> world \<Rightarrow> world" where
  "run [] w = w"
| "run (e # es) w = run es (step e w)"

section \<open>Observations on a run\<close>

text \<open>The sensor events that reach \<^verbatim>\<open>onDeviceOrientationChangeEvent\<close> during a run, in order.\<close>

fun received :: "event list \<Rightarrow> world \<Rightarrow> orientation_event list" where
  "received [] w = []"
| "received (e # es) w =
     (case e of
        Sensor ev \<Rightarrow> (if listen_deviceorientation w then [ev] else [])
      | _ \<Rightarrow> [])
     @ received es (step e w)"

text \<open>The values of \<^verbatim>\<open>window.orientation\<close> that \<^verbatim>\<open>onScreenOrientationChangeEvent\<close> reads during a
  run, in order: one for each \<^verbatim>\<open>init\<close> and one for each rotation event delivered.\<close>

fun screen_reads :: "event list \<Rightarrow> world \<Rightarrow> field list" where
  "screen_reads [] w = []"
| "screen_reads (e # es) w =
     (case e of
        Init spec \<Rightarrow> [window_orientation w]
      | Rotate r \<Rightarrow> (if listen_orientationchange w then [r] else [])
      | _ \<Rightarrow> [])
     @ screen_reads es (step e w)"

text \<open>The handler's own test: no field is \<^verbatim>\<open>null\<close>.\<close>

definition non_null :: "orientation_event \<Rightarrow> bool" where
  "non_null ev = (alpha ev \<noteq> Null \<and> beta ev \<noteq> Null \<and> gamma ev \<noteq> Null)"

text \<open>The specification's notion of a valid sample: all three fields present and non-null.\<close>

fun is_number :: "field \<Rightarrow> bool" where
  "is_number (Num x) = True"
| "is_number Null = False"
| "is_number Undefined = False"

definition valid_sample :: "orientation_event \<Rightarrow> bool" where
  "valid_sample ev = (is_number (alpha ev) \<and> is_number (beta ev) \<and> is_number (gamma ev))"

text \<open>The specification's conversion of a stored field: degrees times \<open>\<pi>/180\<close>, an absent
  field giving 0.\<close>

fun radians_or_zero :: "field \<Rightarrow> real" where
  "radians_or_zero (Num x) = x * (pi / 180)"
| "radians_or_zero Undefined = 0"
| "radians_or_zero Null = 0"

text \<open>The unit quaternion of a rotation by \<open>angle\<close> about a unit axis, in its usual
  half-angle form; it says what "a rotation of -90 degrees about X" is.\<close>

definition rotation_about :: "vector3 \<Rightarrow> real \<Rightarrow> quaternion" where
  "rotation_about axis angle =
     \<lparr> qx = vx axis * sin (angle / 2), qy = vy axis * sin (angle / 2),
       qz = vz axis * sin (angle / 2), qw = cos (angle / 2) \<rparr>"

subsection \<open>What every reachable world satisfies\<close>

definition instances_ready :: "world \<Rightarrow> bool" where
  "instances_ready w =
     (g_THREE w = THREE (g_spec w) \<and> g_isThree w = (THREE (g_spec w) \<noteq> None)
      \<and> length (g_angles w) = 4
      \<and> (case THREE (g_spec w) of
            None \<Rightarrow> True
          | Some T \<Rightarrow>
              (case g_threeInstances w of
                 None \<Rightarrow> False
               | Some ti \<Rightarrow> lib ti = T
                   \<and> q1 ti = \<lparr> qx = - sqrt (1 / 2), qy = 0, qz = 0, qw = sqrt (1 / 2) \<rparr>
                   \<and> zee ti = \<lparr> vx = 0, vy = 0, vz = 1 \<rparr>)))"

fun retry_count_ok :: "target \<times> listener \<Rightarrow> bool" where
  "retry_count_ok (t, Retry t' n p) = (n = 0)"
| "retry_count_ok (t, TriggerClick p) = True"

definition retry_bounded :: "world \<Rightarrow> bool" where
  "retry_bounded w =
     (list_all (\<lambda>r. fst r \<le> 1) (permission_requests w)
      \<and> list_all retry_count_ok (click_listeners w))"

subsection \<open>Example values\<close>

text \<open>A complete sample, a sample without \<^verbatim>\<open>alpha\<close>, and the all-null sample of a desktop browser.\<close>

definition sample_full :: orientation_event where
  "sample_full = \<lparr> alpha = Num 90, beta = Num 45, gamma = Num (- 30) \<rparr>"

definition sample_partial :: orientation_event where
  "sample_partial = \<lparr> alpha = Undefined, beta = Num 10, gamma = Num 20 \<rparr>"

definition sample_desktop :: orientation_event where
  "sample_desktop = \<lparr> alpha = Null, beta = Null, gamma = Null \<rparr>"

text \<open>
  The arithmetic of three.js over the reals, as its documentation and source give it:
  \<^verbatim>\<open>Quaternion.multiply\<close> is the Hamilton product; \<^verbatim>\<open>setFromAxisAngle\<close> is the half-angle quaternion
  of a unit axis; \<^verbatim>\<open>setFromEuler\<close> is the product of the three axis rotations in the order the
  Euler triple names; \<^verbatim>\<open>Euler.setFromQuaternion\<close> reads the rotation matrix of the quaternion
  with the \<^verbatim>\<open>asin\<close>/\<^verbatim>\<open>atan2\<close> formulas of the order asked for, which switch to a degenerate form
  when the deciding matrix entry is 0.9999999 or more in absolute value. For an order string
  that is not one of the six, three.js warns and leaves its receiver alone; the model, which
  has no receiver, gives the identity quaternion and the zero triple. This capability stands
  for \<^verbatim>\<open>spec.THREE\<close> where a statement is instantiated, and the round trip of composition and
  decomposition is stated for it.
\<close>

definition hamilton :: "quaternion \<Rightarrow> quaternion \<Rightarrow> quaternion" where
  "hamilton a b =
     \<lparr> qx = qx a * qw b + qw a * qx b + qy a * qz b - qz a * qy b,
       qy = qy a * qw b + qw a * qy b + qz a * qx b - qx a * qz b,
       qz = qz a * qw b + qw a * qz b + qx a * qy b - qy a * qx b,
       qw = qw a * qw b - qx a * qx b - qy a * qy b - qz a * qz b \<rparr>"

definition axis_rotation :: "euler \<Rightarrow> char \<Rightarrow> quaternion" where
  "axis_rotation e c =
     (if c = CHR ''X'' then rotation_about \<lparr> vx = 1, vy = 0, vz = 0 \<rparr> (ex e)
      else if c = CHR ''Y'' then rotation_about \<lparr> vx = 0, vy = 1, vz = 0 \<rparr> (ey e)
      else rotation_about \<lparr> vx = 0, vy = 0, vz = 1 \<rparr> (ez e))"

definition euler_orders :: "string list" where
  "euler_orders = [''XYZ'', ''YXZ'', ''ZXY'', ''ZYX'', ''YZX'', ''XZY'']"

definition euler_quaternion :: "euler \<Rightarrow> quaternion" where
  "euler_quaternion e =
     (if order e \<in> set euler_orders
      then foldl hamilton \<lparr> qx = 0, qy = 0, qz = 0, qw = 1 \<rparr> (map (axis_rotation e) (order e))
      else \<lparr> qx = 0, qy = 0, qz = 0, qw = 1 \<rparr>)"

definition atan2 :: "real \<Rightarrow> real \<Rightarrow> real" where
  "atan2 y x =
     (if 0 < x then arctan (y / x)
      else if x < 0 then (if 0 \<le> y then arctan (y / x) + pi else arctan (y / x) - pi)
      else if 0 < y then pi / 2 else if y < 0 then - (pi / 2) else 0)"

text \<open>\<^verbatim>\<open>MathUtils.clamp(value, min, max)\<close>.\<close>

definition clamp :: "real \<Rightarrow> real \<Rightarrow> real \<Rightarrow> real" where
  "clamp v lo hi = max lo (min hi v)"

definition quaternion_euler :: "quaternion \<Rightarrow> string \<Rightarrow> euler" where
  "quaternion_euler q ord =
     (let x = qx q; y = qy q; z = qz q; w = qw q;
          m11 = 1 - 2 * (y * y + z * z); m12 = 2 * (x * y - w * z); m13 = 2 * (x * z + w * y);
          m21 = 2 * (x * y + w * z); m22 = 1 - 2 * (x * x + z * z); m23 = 2 * (y * z - w * x);
          m31 = 2 * (x * z - w * y); m32 = 2 * (y * z + w * x); m33 = 1 - 2 * (x * x + y * y)
      in if ord = ''XYZ'' then
           (if \<bar>m13\<bar> < 9999999 / 10000000
            then \<lparr> ex = atan2 (- m23) m33, ey = arcsin (clamp m13 (- 1) 1),
                   ez = atan2 (- m12) m11, order = ord \<rparr>
            else \<lparr> ex = atan2 m32 m22, ey = arcsin (clamp m13 (- 1) 1), ez = 0, order = ord \<rparr>)
         else if ord = ''YXZ'' then
           (if \<bar>m23\<bar> < 9999999 / 10000000
            then \<lparr> ex = arcsin (- clamp m23 (- 1) 1), ey = atan2 m13 m33,
                   ez = atan2 m21 m22, order = ord \<rparr>
            else \<lparr> ex = arcsin (- clamp m23 (- 1) 1), ey = atan2 (- m31) m11, ez = 0,
                   order = ord \<rparr>)
         else if ord = ''ZXY'' then
           (if \<bar>m32\<bar> < 9999999 / 10000000
            then \<lparr> ex = arcsin (clamp m32 (- 1) 1), ey = atan2 (- m31) m33,
                   ez = atan2 (- m12) m22, order = ord \<rparr>
            else \<lparr> ex = arcsin (clamp m32 (- 1) 1), ey = 0, ez = atan2 m21 m11, order = ord \<rparr>)
         else if ord = ''ZYX'' then
           (if \<bar>m31\<bar> < 9999999 / 10000000
            then \<lparr> ex = atan2 m32 m33, ey = arcsin (- clamp m31 (- 1) 1),
                   ez = atan2 m21 m11, order = ord \<rparr>
            else \<lparr> ex = 0, ey = arcsin (- clamp m31 (- 1) 1), ez = atan2 (- m12) m22,
                   order = ord \<rparr>)
         else if ord = ''YZX'' then
           (if \<bar>m21\<bar> < 9999999 / 10000000
            then \<lparr> ex = atan2 (- m23) m22, ey = atan2 (- m31) m11,
                   ez = arcsin (clamp m21 (- 1) 1), order = ord \<rparr>
            else \<lparr> ex = 0, ey = atan2 m13 m33, ez = arcsin (clamp m21 (- 1) 1), order = ord \<rparr>)
         else if ord = ''XZY'' then
           (if \<bar>m12\<bar> < 9999999 / 10000000
            then \<lparr> ex = atan2 m32 m22, ey = atan2 m13 m11,
                   ez = arcsin (- clamp m12 (- 1) 1), order = ord \<rparr>
            else \<lparr> ex = atan2 (- m23) m33, ey = 0, ez = arcsin (- clamp m12 (- 1) 1),
                   order = ord \<rparr>)
         else \<lparr> ex = 0, ey = 0, ez = 0, order = ord \<rparr>)"

definition example_three :: three where
  "example_three = \<lparr> setFromEuler = euler_quaternion, multiply = hamilton,
     setFromAxisAngle = rotation_about, setFromQuaternion = quaternion_euler \<rparr>"

definition spec_three :: config where
  "spec_three = defaultSpec\<lparr> THREE := Some example_three \<rparr>"

text \<open>A sample with the device turned to 270 degrees of yaw, lying flat.\<close>

definition sample_west :: orientation_event where
  "sample_west = \<lparr> alpha = Num 270, beta = Num 0, gamma = Num 0 \<rparr>"

text \<open>
  A quaternion net of the two fixed corrections of \<^verbatim>\<open>set_quaternion\<close>: multiplied on the right
  by the rotation of the screen offset about Z and then by the rotation of +90 degrees
  about X, which undo the two factors in turn.
\<close>

definition net_of_corrections :: "quaternion \<Rightarrow> real \<Rightarrow> quaternion" where
  "net_of_corrections q orient =
     hamilton (hamilton q (rotation_about \<lparr> vx = 0, vy = 0, vz = 1 \<rparr> orient))
       (rotation_about \<lparr> vx = 1, vy = 0, vz = 0 \<rparr> (pi / 2))"

section \<open>Frame and invariant lemmas\<close>

lemma run_invariant:
  assumes "P w" and "\<And>e v. P v \<Longrightarrow> P (step e v)"
  shows "P (run es w)"
  using assms(1) by (induction es arbitrary: w) (simp_all add: assms(2))

lemmas flow_defs = init_def request_API_def requestPermission_then_def
  requestPermission_catch_def retry_def trigger_click_def click_def display_alert_def
  settle_promise_def add_eventListeners_def remove_eventListeners_def
  onScreenOrientationChangeEvent_def onDeviceOrientationChangeEvent_def take_request_def
  destroy_def init_threeInstances_def

subsection \<open>What each function leaves alone\<close>

lemma display_alert_frame [simp]:
  "g_spec (display_alert msg w) = g_spec w"
  "g_angles (display_alert msg w) = g_angles w"
  "g_isEnabled (display_alert msg w) = g_isEnabled w"
  "g_deviceOrientation (display_alert msg w) = g_deviceOrientation w"
  "g_screenOrientation (display_alert msg w) = g_screenOrientation w"
  "g_THREE (display_alert msg w) = g_THREE w"
  "g_isThree (display_alert msg w) = g_isThree w"
  "g_threeInstances (display_alert msg w) = g_threeInstances w"
  "window_orientation (display_alert msg w) = window_orientation w"
  "window_DeviceOrientationEvent (display_alert msg w) = window_DeviceOrientationEvent w"
  "listen_orientationchange (display_alert msg w) = listen_orientationchange w"
  "listen_deviceorientation (display_alert msg w) = listen_deviceorientation w"
  "click_listeners (display_alert msg w) = click_listeners w"
  "permission_requests (display_alert msg w) = permission_requests w"
  "promises (display_alert msg w) = promises w"
  "onclick_calls (display_alert msg w) = onclick_calls w"
  by (simp_all add: display_alert_def)

lemma settle_promise_frame [simp]:
  "g_spec (settle_promise v p w) = g_spec w"
  "g_angles (settle_promise v p w) = g_angles w"
  "g_isEnabled (settle_promise v p w) = g_isEnabled w"
  "g_deviceOrientation (settle_promise v p w) = g_deviceOrientation w"
  "g_screenOrientation (settle_promise v p w) = g_screenOrientation w"
  "g_THREE (settle_promise v p w) = g_THREE w"
  "g_isThree (settle_promise v p w) = g_isThree w"
  "g_threeInstances (settle_promise v p w) = g_threeInstances w"
  "window_orientation (settle_promise v p w) = window_orientation w"
  "window_DeviceOrientationEvent (settle_promise v p w) = window_DeviceOrientationEvent w"
  "listen_orientationchange (settle_promise v p w) = listen_orientationchange w"
  "listen_deviceorientation (settle_promise v p w) = listen_deviceorientation w"
  "click_listeners (settle_promise v p w) = click_listeners w"
  "permission_requests (settle_promise v p w) = permission_requests w"
  "alerts (settle_promise v p w) = alerts w"
  "onclick_calls (settle_promise v p w) = onclick_calls w"
  by (simp_all add: settle_promise_def)

lemma take_request_frame [simp]:
  "g_spec (take_request i w) = g_spec w"
  "g_angles (take_request i w) = g_angles w"
  "g_isEnabled (take_request i w) = g_isEnabled w"
  "g_deviceOrientation (take_request i w) = g_deviceOrientation w"
  "g_screenOrientation (take_request i w) = g_screenOrientation w"
  "g_THREE (take_request i w) = g_THREE w"
  "g_isThree (take_request i w) = g_isThree w"
  "g_threeInstances (take_request i w) = g_threeInstances w"
  "window_orientation (take_request i w) = window_orientation w"
  "window_DeviceOrientationEvent (take_request i w) = window_DeviceOrientationEvent w"
  "listen_orientationchange (take_request i w) = listen_orientationchange w"
  "listen_deviceorientation (take_request i w) = listen_deviceorientation w"
  "click_listeners (take_request i w) = click_listeners w"
  "promises (take_request i w) = promises w"
  "alerts (take_request i w) = alerts w"
  "onclick_calls (take_request i w) = onclick_calls w"
  by (simp_all add: take_request_def)

lemma add_eventListeners_frame [simp]:
  "g_spec (add_eventListeners w) = g_spec w"
  "g_angles (add_eventListeners w) = g_angles w"
  "g_deviceOrientation (add_eventListeners w) = g_deviceOrientation w"
  "g_screenOrientation (add_eventListeners w) = g_screenOrientation w"
  "g_THREE (add_eventListeners w) = g_THREE w"
  "g_isThree (add_eventListeners w) = g_isThree w"
  "g_threeInstances (add_eventListeners w) = g_threeInstances w"
  "window_orientation (add_eventListeners w) = window_orientation w"
  "window_DeviceOrientationEvent (add_eventListeners w) = window_DeviceOrientationEvent w"
  "click_listeners (add_eventListeners w) = click_listeners w"
  "permission_requests (add_eventListeners w) = permission_requests w"
  "promises (add_eventListeners w) = promises w"
  "alerts (add_eventListeners w) = alerts w"
  "onclick_calls (add_eventListeners w) = onclick_calls w"
  by (simp_all add: add_eventListeners_def)

lemma remove_eventListeners_frame [simp]:
  "g_spec (remove_eventListeners w) = g_spec w"
  "g_angles (remove_eventListeners w) = g_angles w"
  "g_deviceOrientation (remove_eventListeners w) = g_deviceOrientation w"
  "g_screenOrientation (remove_eventListeners w) = g_screenOrientation w"
  "g_THREE (remove_eventListeners w) = g_THREE w"
  "g_isThree (remove_eventListeners w) = g_isThree w"
  "g_threeInstances (remove_eventListeners w) = g_threeInstances w"
  "window_orientation (remove_eventListeners w) = window_orientation w"
  "window_DeviceOrientationEvent (remove_eventListeners w) = window_DeviceOrientationEvent w"
  "click_listeners (remove_eventListeners w) = click_listeners w"
  "permission_requests (remove_eventListeners w) = permission_requests w"
  "promises (remove_eventListeners w) = promises w"
  "alerts (remove_eventListeners w) = alerts w"
  "onclick_calls (remove_eventListeners w) = onclick_calls w"
  by (simp_all add: remove_eventListeners_def)

lemma onDeviceOrientationChangeEvent_frame [simp]:
  "g_spec (onDeviceOrientationChangeEvent ev w) = g_spec w"
  "g_angles (onDeviceOrientationChangeEvent ev w) = g_angles w"
  "g_isEnabled (onDeviceOrientationChangeEvent ev w) = g_isEnabled w"
  "g_screenOrientation (onDeviceOrientationChangeEvent ev w) = g_screenOrientation w"
  "g_THREE (onDeviceOrientationChangeEvent ev w) = g_THREE w"
  "g_isThree (onDeviceOrientationChangeEvent ev w) = g_isThree w"
  "g_threeInstances (onDeviceOrientationChangeEvent ev w) = g_threeInstances w"
  "window_orientation (onDeviceOrientationChangeEvent ev w) = window_orientation w"
  "window_DeviceOrientationEvent (onDeviceOrientationChangeEvent ev w) = window_DeviceOrientationEvent w"
  "listen_orientationchange (onDeviceOrientationChangeEvent ev w) = listen_orientationchange w"
  "listen_deviceorientation (onDeviceOrientationChangeEvent ev w) = listen_deviceorientation w"
  "click_listeners (onDeviceOrientationChangeEvent ev w) = click_listeners w"
  "permission_requests (onDeviceOrientationChangeEvent ev w) = permission_requests w"
  "promises (onDeviceOrientationChangeEvent ev w) = promises w"
  "alerts (onDeviceOrientationChangeEvent ev w) = alerts w"
  "onclick_calls (onDeviceOrientationChangeEvent ev w) = onclick_calls w"
  by (simp_all add: onDeviceOrientationChangeEvent_def)

lemma onScreenOrientationChangeEvent_frame [simp]:
  "g_spec (onScreenOrientationChangeEvent w) = g_spec w"
  "g_angles (onScreenOrientationChangeEvent w) = g_angles w"
  "g_isEnabled (onScreenOrientationChangeEvent w) = g_isEnabled w"
  "g_deviceOrientation (onScreenOrientationChangeEvent w) = g_deviceOrientation w"
  "g_THREE (onScreenOrientationChangeEvent w) = g_THREE w"
  "g_isThree (onScreenOrientationChangeEvent w) = g_isThree w"
  "g_threeInstances (onScreenOrientationChangeEvent w) = g_threeInstances w"
  "window_orientation (onScreenOrientationChangeEvent w) = window_orientation w"
  "window_DeviceOrientationEvent (onScreenOrientationChangeEvent w) = window_DeviceOrientationEvent w"
  "listen_orientationchange (onScreenOrientationChangeEvent w) = listen_orientationchange w"
  "listen_deviceorientation (onScreenOrientationChangeEvent w) = listen_deviceorientation w"
  "click_listeners (onScreenOrientationChangeEvent w) = click_listeners w"
  "permission_requests (onScreenOrientationChangeEvent w) = permission_requests w"
  "promises (onScreenOrientationChangeEvent w) = promises w"
  "alerts (onScreenOrientationChangeEvent w) = alerts w"
  "onclick_calls (onScreenOrientationChangeEvent w) = onclick_calls w"
  by (simp_all add: onScreenOrientationChangeEvent_def)

lemma init_threeInstances_frame [simp]:
  "g_spec (init_threeInstances T w) = g_spec w"
  "g_angles (init_threeInstances T w) = g_angles w"
  "g_isEnabled (init_threeInstances T w) = g_isEnabled w"
  "g_deviceOrientation (init_threeInstances T w) = g_deviceOrientation w"
  "g_screenOrientation (init_threeInstances T w) = g_screenOrientation w"
  "g_THREE (init_threeInstances T w) = g_THREE w"
  "g_isThree (init_threeInstances T w) = g_isThree w"
  "window_orientation (init_threeInstances T w) = window_orientation w"
  "window_DeviceOrientationEvent (init_threeInstances T w) = window_DeviceOrientationEvent w"
  "listen_orientationchange (init_threeInstances T w) = listen_orientationchange w"
  "listen_deviceorientation (init_threeInstances T w) = listen_deviceorientation w"
  "click_listeners (init_threeInstances T w) = click_listeners w"
  "permission_requests (init_threeInstances T w) = permission_requests w"
  "promises (init_threeInstances T w) = promises w"
  "alerts (init_threeInstances T w) = alerts w"
  "onclick_calls (init_threeInstances T w) = onclick_calls w"
  by (simp_all add: init_threeInstances_def)

lemma request_API_frame [simp]:
  "g_spec (request_API n p w) = g_spec w"
  "g_angles (request_API n p w) = g_angles w"
  "g_deviceOrientation (request_API n p w) = g_deviceOrientation w"
  "g_screenOrientation (request_API n p w) = g_screenOrientation w"
  "g_THREE (request_API n p w) = g_THREE w"
  "g_isThree (request_API n p w) = g_isThree w"
  "g_threeInstances (request_API n p w) = g_threeInstances w"
  "window_orientation (request_API n p w) = window_orientation w"
  "window_DeviceOrientationEvent (request_API n p w) = window_DeviceOrientationEvent w"
  "click_listeners (request_API n p w) = click_listeners w"
  "onclick_calls (request_API n p w) = onclick_calls w"
  by (simp_all add: request_API_def)

lemma requestPermission_then_frame [simp]:
  "g_spec (requestPermission_then p response w) = g_spec w"
  "g_angles (requestPermission_then p response w) = g_angles w"
  "g_deviceOrientation (requestPermission_then p response w) = g_deviceOrientation w"
  "g_screenOrientation (requestPermission_then p response w) = g_screenOrientation w"
  "g_THREE (requestPermission_then p response w) = g_THREE w"
  "g_isThree (requestPermission_then p response w) = g_isThree w"
  "g_threeInstances (requestPermission_then p response w) = g_threeInstances w"
  "window_orientation (requestPermission_then p response w) = window_orientation w"
  "window_DeviceOrientationEvent (requestPermission_then p response w) = window_DeviceOrientationEvent w"
  "click_listeners (requestPermission_then p response w) = click_listeners w"
  "permission_requests (requestPermission_then p response w) = permission_requests w"
  "onclick_calls (requestPermission_then p response w) = onclick_calls w"
  by (simp_all add: requestPermission_then_def Let_def)

lemma requestPermission_catch_frame [simp]:
  "g_spec (requestPermission_catch n p error w) = g_spec w"
  "g_angles (requestPermission_catch n p error w) = g_angles w"
  "g_deviceOrientation (requestPermission_catch n p error w) = g_deviceOrientation w"
  "g_screenOrientation (requestPermission_catch n p error w) = g_screenOrientation w"
  "g_THREE (requestPermission_catch n p error w) = g_THREE w"
  "g_isThree (requestPermission_catch n p error w) = g_isThree w"
  "g_threeInstances (requestPermission_catch n p error w) = g_threeInstances w"
  "window_orientation (requestPermission_catch n p error w) = window_orientation w"
  "window_DeviceOrientationEvent (requestPermission_catch n p error w) = window_DeviceOrientationEvent w"
  "g_isEnabled (requestPermission_catch n p error w) = g_isEnabled w"
  "listen_orientationchange (requestPermission_catch n p error w) = listen_orientationchange w"
  "listen_deviceorientation (requestPermission_catch n p error w) = listen_deviceorientation w"
  "permission_requests (requestPermission_catch n p error w) = permission_requests w"
  "onclick_calls (requestPermission_catch n p error w) = onclick_calls w"
  by (simp_all add: requestPermission_catch_def Let_def)

lemma retry_frame [simp]:
  "g_spec (retry t n p w) = g_spec w"
  "g_angles (retry t n p w) = g_angles w"
  "g_deviceOrientation (retry t n p w) = g_deviceOrientation w"
  "g_screenOrientation (retry t n p w) = g_screenOrientation w"
  "g_THREE (retry t n p w) = g_THREE w"
  "g_isThree (retry t n p w) = g_isThree w"
  "g_threeInstances (retry t n p w) = g_threeInstances w"
  "window_orientation (retry t n p w) = window_orientation w"
  "window_DeviceOrientationEvent (retry t n p w) = window_DeviceOrientationEvent w"
  "onclick_calls (retry t n p w) = onclick_calls w"
  by (simp_all add: retry_def Let_def)

lemma trigger_click_frame [simp]:
  "g_spec (trigger_click p w) = g_spec w"
  "g_angles (trigger_click p w) = g_angles w"
  "g_deviceOrientation (trigger_click p w) = g_deviceOrientation w"
  "g_screenOrientation (trigger_click p w) = g_screenOrientation w"
  "g_THREE (trigger_click p w) = g_THREE w"
  "g_isThree (trigger_click p w) = g_isThree w"
  "g_threeInstances (trigger_click p w) = g_threeInstances w"
  "window_orientation (trigger_click p w) = window_orientation w"
  "window_DeviceOrientationEvent (trigger_click p w) = window_DeviceOrientationEvent w"
  "click_listeners (trigger_click p w) = click_listeners w"
  by (simp_all add: trigger_click_def Let_def)

lemma run_listener_frame [simp]:
  "g_spec (run_listener h w) = g_spec w"
  "g_angles (run_listener h w) = g_angles w"
  "g_deviceOrientation (run_listener h w) = g_deviceOrientation w"
  "g_screenOrientation (run_listener h w) = g_screenOrientation w"
  "g_THREE (run_listener h w) = g_THREE w"
  "g_isThree (run_listener h w) = g_isThree w"
  "g_threeInstances (run_listener h w) = g_threeInstances w"
  "window_orientation (run_listener h w) = window_orientation w"
  "window_DeviceOrientationEvent (run_listener h w) = window_DeviceOrientationEvent w"
  by (cases h; simp)+

lemma fire_frame [simp]:
  "g_spec (fire ls w) = g_spec w"
  "g_angles (fire ls w) = g_angles w"
  "g_deviceOrientation (fire ls w) = g_deviceOrientation w"
  "g_screenOrientation (fire ls w) = g_screenOrientation w"
  "g_THREE (fire ls w) = g_THREE w"
  "g_isThree (fire ls w) = g_isThree w"
  "g_threeInstances (fire ls w) = g_threeInstances w"
  "window_orientation (fire ls w) = window_orientation w"
  "window_DeviceOrientationEvent (fire ls w) = window_DeviceOrientationEvent w"
  by (induction ls arbitrary: w; simp)+

lemma click_frame [simp]:
  "g_spec (click t w) = g_spec w"
  "g_angles (click t w) = g_angles w"
  "g_deviceOrientation (click t w) = g_deviceOrientation w"
  "g_screenOrientation (click t w) = g_screenOrientation w"
  "g_THREE (click t w) = g_THREE w"
  "g_isThree (click t w) = g_isThree w"
  "g_threeInstances (click t w) = g_threeInstances w"
  "window_orientation (click t w) = window_orientation w"
  "window_DeviceOrientationEvent (click t w) = window_DeviceOrientationEvent w"
  by (simp_all add: click_def Let_def)

lemma init_frame [simp]:
  "g_angles (snd (init spec w)) = g_angles w"
  "g_deviceOrientation (snd (init spec w)) = g_deviceOrientation w"
  "window_orientation (snd (init spec w)) = window_orientation w"
  "window_DeviceOrientationEvent (snd (init spec w)) = window_DeviceOrientationEvent w"
  "onclick_calls (snd (init spec w)) = onclick_calls w"
  by (simp_all add: init_def init_threeInstances_def Let_def split: option.splits)

lemma update_frame [simp]:
  "g_spec (snd (update w)) = g_spec w"
  "g_isEnabled (snd (update w)) = g_isEnabled w"
  "g_deviceOrientation (snd (update w)) = g_deviceOrientation w"
  "g_screenOrientation (snd (update w)) = g_screenOrientation w"
  "g_THREE (snd (update w)) = g_THREE w"
  "g_isThree (snd (update w)) = g_isThree w"
  "window_orientation (snd (update w)) = window_orientation w"
  "window_DeviceOrientationEvent (snd (update w)) = window_DeviceOrientationEvent w"
  "listen_orientationchange (snd (update w)) = listen_orientationchange w"
  "listen_deviceorientation (snd (update w)) = listen_deviceorientation w"
  "click_listeners (snd (update w)) = click_listeners w"
  "permission_requests (snd (update w)) = permission_requests w"
  "promises (snd (update w)) = promises w"
  "alerts (snd (update w)) = alerts w"
  "onclick_calls (snd (update w)) = onclick_calls w"
  by (simp_all add: update_def Let_def split: option.splits)

lemma compute_rotation_frame [simp]:
  "g_spec (snd (compute_rotation c q w)) = g_spec w"
  "g_angles (snd (compute_rotation c q w)) = g_angles w"
  "g_isEnabled (snd (compute_rotation c q w)) = g_isEnabled w"
  "g_deviceOrientation (snd (compute_rotation c q w)) = g_deviceOrientation w"
  "g_screenOrientation (snd (compute_rotation c q w)) = g_screenOrientation w"
  "g_THREE (snd (compute_rotation c q w)) = g_THREE w"
  "g_isThree (snd (compute_rotation c q w)) = g_isThree w"
  "window_orientation (snd (compute_rotation c q w)) = window_orientation w"
  "window_DeviceOrientationEvent (snd (compute_rotation c q w)) = window_DeviceOrientationEvent w"
  "listen_orientationchange (snd (compute_rotation c q w)) = listen_orientationchange w"
  "listen_deviceorientation (snd (compute_rotation c q w)) = listen_deviceorientation w"
  "click_listeners (snd (compute_rotation c q w)) = click_listeners w"
  "permission_requests (snd (compute_rotation c q w)) = permission_requests w"
  "promises (snd (compute_rotation c q w)) = promises w"
  "alerts (snd (compute_rotation c q w)) = alerts w"
  "onclick_calls (snd (compute_rotation c q w)) = onclick_calls w"
  by (simp_all add: compute_rotation_def Let_def split: option.splits)

lemma destroy_frame [simp]:
  "g_spec (destroy w) = g_spec w"
  "g_angles (destroy w) = g_angles w"
  "g_deviceOrientation (destroy w) = g_deviceOrientation w"
  "g_screenOrientation (destroy w) = g_screenOrientation w"
  "g_THREE (destroy w) = g_THREE w"
  "g_isThree (destroy w) = g_isThree w"
  "g_threeInstances (destroy w) = g_threeInstances w"
  "window_orientation (destroy w) = window_orientation w"
  "window_DeviceOrientationEvent (destroy w) = window_DeviceOrientationEvent w"
  "click_listeners (destroy w) = click_listeners w"
  "permission_requests (destroy w) = permission_requests w"
  "promises (destroy w) = promises w"
  "alerts (destroy w) = alerts w"
  "onclick_calls (destroy w) = onclick_calls w"
  by (simp_all add: destroy_def)

subsection \<open>The scratch objects exist whenever the math capability is configured\<close>

lemma instances_ready_frame:
  "g_spec v = g_spec w \<Longrightarrow> g_THREE v = g_THREE w \<Longrightarrow> g_isThree v = g_isThree w \<Longrightarrow>
   g_angles v = g_angles w \<Longrightarrow> g_threeInstances v = g_threeInstances w \<Longrightarrow>
   instances_ready v = instances_ready w"
  by (simp add: instances_ready_def split: option.splits)

lemma init_instances_ready: "instances_ready w \<Longrightarrow> instances_ready (snd (init spec w))"
  by (simp add: init_def instances_ready_def init_threeInstances_def Let_def
      split: option.splits)

lemma update_instances_ready: "instances_ready w \<Longrightarrow> instances_ready (snd (update w))"
  by (auto simp add: update_def instances_ready_def set_quaternion_def Let_def
      split: option.splits)

lemma compute_instances_ready:
  "instances_ready w \<Longrightarrow> instances_ready (snd (compute_rotation c q w))"
  by (auto simp add: compute_rotation_def instances_ready_def Let_def split: option.splits)

lemma step_instances_ready:
  assumes "instances_ready w"
  shows "instances_ready (step e w)"
proof (cases e)
  case (Init spec)
  then show ?thesis using assms by (simp add: init_instances_ready)
next
  case Update
  then show ?thesis using assms by (simp add: update_instances_ready)
next
  case (Compute q)
  then show ?thesis using assms by (simp add: compute_rotationX_def compute_instances_ready)
qed (use assms in \<open>simp_all add: Let_def instances_ready_frame [THEN iffD2]\<close>)

lemma loaded_instances_ready: "instances_ready (loaded doe wo)"
  by (simp add: instances_ready_def loaded_def defaultSpec_def)

lemma reachable_instances_ready: "instances_ready (run es (loaded doe wo))"
  by (rule run_invariant [OF loaded_instances_ready step_instances_ready])

subsection \<open>Retry counts never exceed one\<close>

lemma retry_bounded_frame:
  "permission_requests v = permission_requests w \<Longrightarrow> click_listeners v = click_listeners w \<Longrightarrow>
   retry_bounded v = retry_bounded w"
  by (simp add: retry_bounded_def)

lemma request_API_retry_bounded:
  "retry_bounded w \<Longrightarrow> n \<le> 1 \<Longrightarrow> retry_bounded (request_API n p w)"
  by (simp add: retry_bounded_def request_API_def)

lemma list_all_remove1: "list_all P xs \<Longrightarrow> list_all P (remove1 x xs)"
  by (induction xs) auto

lemma take_request_retry_bounded: "retry_bounded w \<Longrightarrow> retry_bounded (take_request i w)"
  by (auto simp add: retry_bounded_def take_request_def list_all_iff
      dest: in_set_takeD in_set_dropD)

lemma requestPermission_then_retry_bounded:
  "retry_bounded w \<Longrightarrow> retry_bounded (requestPermission_then p r w)"
  by (simp add: retry_bounded_def)

lemma requestPermission_catch_retry_bounded:
  "retry_bounded w \<Longrightarrow> retry_bounded (requestPermission_catch n p e w)"
  by (simp add: retry_bounded_def requestPermission_catch_def Let_def)

lemma trigger_click_retry_bounded: "retry_bounded w \<Longrightarrow> retry_bounded (trigger_click p w)"
proof -
  assume a: "retry_bounded w"
  then have "retry_bounded (w\<lparr> onclick_calls := onclick_calls w + 1 \<rparr>)"
    by (simp add: retry_bounded_def)
  with a show ?thesis
    by (simp add: trigger_click_def request_API_retry_bounded)
qed

lemma retry_retry_bounded: "retry_bounded w \<Longrightarrow> retry_bounded (retry t 0 p w)"
proof -
  assume a: "retry_bounded w"
  let ?v = "display_alert ''DeviceOrientationEvent retry...'' w"
  have "retry_bounded (?v\<lparr> click_listeners := remove1 (t, Retry t 0 p) (click_listeners ?v) \<rparr>)"
    using a by (simp add: retry_bounded_def list_all_remove1)
  then show ?thesis
    by (simp add: retry_def Let_def request_API_retry_bounded)
qed

lemma run_listener_retry_bounded:
  assumes "retry_bounded w" and "(t, h) \<in> set (click_listeners w)"
  shows "retry_bounded (run_listener h w)"
proof (cases h)
  case (TriggerClick p)
  then show ?thesis using assms(1) by (simp add: trigger_click_retry_bounded)
next
  case (Retry t' n p)
  from assms have "retry_count_ok (t, h)"
    by (simp add: retry_bounded_def list_all_iff)
  with Retry have "n = 0" by simp
  with Retry show ?thesis using assms(1) by (simp add: retry_retry_bounded)
qed

lemma fire_retry_bounded: "retry_bounded w \<Longrightarrow> retry_bounded (fire ls w)"
proof (induction ls arbitrary: w)
  case Nil
  then show ?case by simp
next
  case (Cons l ls)
  have "retry_bounded (if l \<in> set (click_listeners w) then run_listener (snd l) w else w)"
    using Cons.prems run_listener_retry_bounded [of w "fst l" "snd l"] by simp
  then show ?case using Cons.IH by simp
qed

lemma init_retry_bounded: "retry_bounded w \<Longrightarrow> retry_bounded (snd (init spec w))"
  by (cases "THREE spec"; cases "DOMTrigger spec")
    (simp_all add: init_def Let_def retry_bounded_def request_API_def)

lemma step_retry_bounded:
  assumes "retry_bounded w"
  shows "retry_bounded (step e w)"
proof (cases e)
  case (Init spec)
  then show ?thesis using assms by (simp add: init_retry_bounded)
next
  case (Click t)
  then show ?thesis using assms by (simp add: click_def Let_def fire_retry_bounded)
next
  case (PermissionAnswer i response)
  then show ?thesis using assms
    by (simp add: requestPermission_then_retry_bounded take_request_retry_bounded)
next
  case (PermissionError i error)
  then show ?thesis using assms
    by (simp add: requestPermission_catch_retry_bounded take_request_retry_bounded)
next
  case (Compute q)
  then show ?thesis using assms by (simp add: retry_bounded_def compute_rotationX_def)
qed (use assms in \<open>simp_all add: retry_bounded_def Let_def\<close>)

lemma loaded_retry_bounded: "retry_bounded (loaded doe wo)"
  by (simp add: retry_bounded_def loaded_def)

lemma reachable_retry_bounded: "retry_bounded (run es (loaded doe wo))"
  by (rule run_invariant [OF loaded_retry_bounded step_retry_bounded])


subsection \<open>The stored sample and the screen offset along a run\<close>

lemma step_deviceOrientation:
  "g_deviceOrientation (step e w) =
     (case e of
        Sensor ev \<Rightarrow> if listen_deviceorientation w \<and> non_null ev then Some ev
                     else g_deviceOrientation w
      | _ \<Rightarrow> g_deviceOrientation w)"
  by (cases e)
    (simp_all add: onDeviceOrientationChangeEvent_def non_null_def Let_def compute_rotationX_def)

lemma run_deviceOrientation_None:
  "g_deviceOrientation (run es w) = None \<longleftrightarrow>
     g_deviceOrientation w = None \<and> \<not> list_ex non_null (received es w)"
proof (induction es arbitrary: w)
  case Nil
  then show ?case by simp
next
  case (Cons e es)
  show ?case
    by (cases e) (auto simp add: Cons.IH step_deviceOrientation simp del: step.simps)
qed

lemma step_screenOrientation:
  "g_screenOrientation (step e w) =
     (case e of
        Init spec \<Rightarrow> or_zero (window_orientation w) * d2r
      | Rotate r \<Rightarrow> if listen_orientationchange w then or_zero r * d2r
                    else g_screenOrientation w
      | _ \<Rightarrow> g_screenOrientation w)"
proof (cases e)
  case (Init spec)
  then show ?thesis
    by (cases "THREE spec"; cases "DOMTrigger spec")
      (simp_all add: init_def Let_def onScreenOrientationChangeEvent_def)
qed (simp_all add: Let_def compute_rotationX_def onScreenOrientationChangeEvent_def)

lemma run_screenOrientation:
  "g_screenOrientation (run es w) =
     (if screen_reads es w = [] then g_screenOrientation w
      else or_zero (last (screen_reads es w)) * d2r)"
proof (induction es arbitrary: w)
  case Nil
  then show ?case by simp
next
  case (Cons e es)
  show ?case
    by (cases e) (simp_all add: Cons.IH step_screenOrientation del: step.simps)
qed

lemma update_four:
  "length xs = 4 \<Longrightarrow> xs[0 := a, Suc 0 := b, 2 := c, 3 := d] = [a, b, c, d]"
  by (auto simp add: numeral_eq_Suc length_Suc_conv)

lemma get_deviceEulerAngle_radians:
  "get_deviceEulerAngle d ''alpha'' = radians_or_zero (alpha d)"
  "get_deviceEulerAngle d ''beta'' = radians_or_zero (beta d)"
  "get_deviceEulerAngle d ''gamma'' = radians_or_zero (gamma d)"
  by (cases "alpha d"; cases "beta d"; cases "gamma d";
      simp add: get_deviceEulerAngle_def property_def d2r_def)+

lemma sqrt_half: "sqrt (1 / 2) = sqrt 2 / 2"
proof -
  have "sqrt 2 * sqrt 2 = 2" by simp
  then show ?thesis by (simp add: real_sqrt_divide field_simps)
qed

lemma quarter_turn_about_x:
  "rotation_about \<lparr> vx = 1, vy = 0, vz = 0 \<rparr> (- (pi / 2))
     = \<lparr> qx = - sqrt (1 / 2), qy = 0, qz = 0, qw = sqrt (1 / 2) \<rparr>"
proof -
  have "- (pi / 2) / 2 = - (pi / 4)" by simp
  then show ?thesis
    by (simp add: rotation_about_def sin_45 cos_45 sqrt_half)
qed


subsection \<open>Quaternion and Euler arithmetic\<close>

lemma hamilton_assoc: "hamilton (hamilton a b) c = hamilton a (hamilton b c)"
  by (simp add: hamilton_def algebra_simps)

lemma hamilton_identity:
  "hamilton q \<lparr> qx = 0, qy = 0, qz = 0, qw = 1 \<rparr> = q"
  "hamilton \<lparr> qx = 0, qy = 0, qz = 0, qw = 1 \<rparr> q = q"
  by (simp_all add: hamilton_def)

lemma rotation_about_inverse:
  "vx a * vx a + vy a * vy a + vz a * vz a = 1 \<Longrightarrow>
   hamilton (rotation_about a (- t)) (rotation_about a t) = \<lparr> qx = 0, qy = 0, qz = 0, qw = 1 \<rparr>"
proof -
  assume u: "vx a * vx a + vy a * vy a + vz a * vz a = 1"
  have "cos (t / 2) * cos (t / 2) + vx a * sin (t / 2) * (vx a * sin (t / 2))
      + vy a * sin (t / 2) * (vy a * sin (t / 2)) + vz a * sin (t / 2) * (vz a * sin (t / 2))
      = cos (t / 2) * cos (t / 2)
        + (vx a * vx a + vy a * vy a + vz a * vz a) * (sin (t / 2) * sin (t / 2))"
    by (simp add: algebra_simps)
  also have "\<dots> = 1" by (simp add: u)
  finally show ?thesis
    by (simp add: rotation_about_def hamilton_def)
qed

lemma euler_quaternion_YXZ:
  "euler_quaternion \<lparr> ex = b, ey = a, ez = c, order = ''YXZ'' \<rparr> =
     \<lparr> qx = sin (b / 2) * cos (a / 2) * cos (c / 2) + cos (b / 2) * sin (a / 2) * sin (c / 2),
       qy = cos (b / 2) * sin (a / 2) * cos (c / 2) - sin (b / 2) * cos (a / 2) * sin (c / 2),
       qz = cos (b / 2) * cos (a / 2) * sin (c / 2) - sin (b / 2) * sin (a / 2) * cos (c / 2),
       qw = cos (b / 2) * cos (a / 2) * cos (c / 2) + sin (b / 2) * sin (a / 2) * sin (c / 2) \<rparr>"
  by (simp add: euler_quaternion_def euler_orders_def axis_rotation_def rotation_about_def
      hamilton_def algebra_simps)

lemma matrix_entries:
  fixes s1 c1 s2 c2 s3 c3 :: real
  assumes h1: "s1 * s1 + c1 * c1 = 1" and h2: "s2 * s2 + c2 * c2 = 1"
    and h3: "s3 * s3 + c3 * c3 = 1"
    and x: "x = s1 * c2 * c3 + c1 * s2 * s3" and y: "y = c1 * s2 * c3 - s1 * c2 * s3"
    and z: "z = c1 * c2 * s3 - s1 * s2 * c3" and w: "w = c1 * c2 * c3 + s1 * s2 * s3"
  shows "2 * (y * z - w * x) = - (2 * s1 * c1)"
    and "2 * (x * z + w * y) = (2 * s2 * c2) * (c1 * c1 - s1 * s1)"
    and "1 - 2 * (x * x + y * y) = (c2 * c2 - s2 * s2) * (c1 * c1 - s1 * s1)"
    and "2 * (x * y + w * z) = (c1 * c1 - s1 * s1) * (2 * s3 * c3)"
    and "1 - 2 * (x * x + z * z) = (c1 * c1 - s1 * s1) * (c3 * c3 - s3 * s3)"
  using h1 h2 h3 unfolding x y z w by algebra+

lemma atan2_polar:
  assumes c: "0 < c" and lo: "- pi < t" and hi: "t \<le> pi"
  shows "atan2 (sin t * c) (cos t * c) = t"
proof -
  have ratio: "sin t * c / (cos t * c) = tan t"
    using c by (simp add: tan_def)
  consider (pos) "0 < cos t" | (neg) "cos t < 0" | (zero) "cos t = 0"
    by linarith
  then show ?thesis
  proof cases
    case pos
    have "- (pi / 2) < t \<and> t < pi / 2"
    proof (rule ccontr)
      assume "\<not> (- (pi / 2) < t \<and> t < pi / 2)"
      then consider "t \<le> - (pi / 2)" | "pi / 2 \<le> t" by linarith
      then show False
      proof cases
        case 1
        then have "0 \<le> cos (t + pi)"
          using lo by (intro cos_ge_zero) linarith+
        with pos show False by simp
      next
        case 2
        then have "0 \<le> cos (t - pi)"
          using hi by (intro cos_ge_zero) linarith+
        with pos show False by simp
      qed
    qed
    then have "arctan (tan t) = t"
      by (simp add: arctan_tan)
    with pos c ratio show ?thesis
      by (simp add: atan2_def)
  next
    case neg
    have out: "t < - (pi / 2) \<or> pi / 2 < t"
    proof (rule ccontr)
      assume "\<not> (t < - (pi / 2) \<or> pi / 2 < t)"
      then have "0 \<le> cos t" by (intro cos_ge_zero) linarith+
      with neg show False by simp
    qed
    have x: "cos t * c < 0"
      using neg c by (simp add: mult_neg_pos)
    show ?thesis
    proof (cases "0 \<le> sin t")
      case True
      have up: "pi / 2 < t"
      proof (rule ccontr)
        assume "\<not> pi / 2 < t"
        with out have "t < - (pi / 2)" by simp
        then have "0 < sin (t + pi)"
          using lo by (intro sin_gt_zero) linarith+
        with True show False by simp
      qed
      have "arctan (tan (t - pi)) = t - pi"
        using up hi by (intro arctan_tan) linarith+
      moreover have "tan (t - pi) = tan t"
        using tan_periodic_pi [of "t - pi"] by simp
      ultimately have "arctan (tan t) = t - pi" by simp
      moreover have "0 \<le> sin t * c"
        using True c by simp
      ultimately show ?thesis
        using x ratio by (simp add: atan2_def)
    next
      case False
      have down: "t < - (pi / 2)"
      proof (rule ccontr)
        assume "\<not> t < - (pi / 2)"
        with out have "pi / 2 < t" by simp
        then have "0 \<le> sin t"
          using hi by (intro sin_ge_zero) linarith+
        with False show False by simp
      qed
      have "arctan (tan (t + pi)) = t + pi"
        using down lo by (intro arctan_tan) linarith+
      then have "arctan (tan t) = t + pi" by simp
      moreover have "\<not> 0 \<le> sin t * c"
        using False c by (simp add: mult_less_0_iff not_le)
      ultimately show ?thesis
        using x ratio by (simp add: atan2_def)
    qed
  next
    case zero
    have half: "t = pi / 2 \<or> t = - (pi / 2)"
    proof (rule ccontr)
      assume n: "\<not> (t = pi / 2 \<or> t = - (pi / 2))"
      consider "t < - (pi / 2)" | "- (pi / 2) < t \<and> t < pi / 2" | "pi / 2 < t"
        using n by linarith
      then show False
      proof cases
        case 1
        then have "0 < cos (t + pi)"
          using lo by (intro cos_gt_zero_pi) linarith+
        with zero show False by simp
      next
        case 2
        then have "0 < cos t" by (simp add: cos_gt_zero_pi)
        with zero show False by simp
      next
        case 3
        then have "0 < cos (t - pi)"
          using hi by (intro cos_gt_zero_pi) linarith+
        with zero show False by simp
      qed
    qed
    then show ?thesis
    proof
      assume t: "t = pi / 2"
      show ?thesis
        unfolding t using c by (simp add: atan2_def)
    next
      assume t: "t = - (pi / 2)"
      show ?thesis
        unfolding t using c by (simp add: atan2_def)
    qed
  qed
qed

lemma sin_cos_half:
  fixes t :: real
  shows "sin t = 2 * sin (t / 2) * cos (t / 2)"
    and "cos t = cos (t / 2) * cos (t / 2) - sin (t / 2) * sin (t / 2)"
  using sin_double [of "t / 2"] cos_double [of "t / 2"] by (simp_all add: power2_eq_square)

lemma quaternion_euler_of_matrix:
  assumes "2 * (y * z - w * x) = - sb" and "2 * (x * z + w * y) = m13"
    and "1 - 2 * (x * x + y * y) = m33" and "2 * (x * y + w * z) = m21"
    and "1 - 2 * (x * x + z * z) = m22" and "\<bar>sb\<bar> < 9999999 / 10000000"
  shows "quaternion_euler \<lparr> qx = x, qy = y, qz = z, qw = w \<rparr> ''YXZ''
     = \<lparr> ex = arcsin sb, ey = atan2 m13 m33, ez = atan2 m21 m22, order = ''YXZ'' \<rparr>"
proof -
  have small: "\<bar>- sb\<bar> < 9999999 / 10000000"
    using assms(6) by simp
  then have "clamp (- sb) (- 1) 1 = - sb"
    by (simp add: clamp_def)
  then show ?thesis
    unfolding quaternion_euler_def Let_def quaternion.select_convs assms(1-5)
    using small by simp
qed

lemma quaternion_euler_YXZ:
  assumes "\<bar>sin b\<bar> < 9999999 / 10000000"
  shows "quaternion_euler (euler_quaternion \<lparr> ex = b, ey = a, ez = c, order = ''YXZ'' \<rparr>) ''YXZ''
     = \<lparr> ex = arcsin (sin b), ey = atan2 (sin a * cos b) (cos a * cos b),
         ez = atan2 (sin c * cos b) (cos c * cos b), order = ''YXZ'' \<rparr>"
proof -
  define s1 c1 s2 c2 s3 c3 where "s1 = sin (b / 2)" and "c1 = cos (b / 2)"
    and "s2 = sin (a / 2)" and "c2 = cos (a / 2)" and "s3 = sin (c / 2)" and "c3 = cos (c / 2)"
  define x y z w where "x = s1 * c2 * c3 + c1 * s2 * s3" and "y = c1 * s2 * c3 - s1 * c2 * s3"
    and "z = c1 * c2 * s3 - s1 * s2 * c3" and "w = c1 * c2 * c3 + s1 * s2 * s3"
  have h: "s1 * s1 + c1 * c1 = 1" "s2 * s2 + c2 * c2 = 1" "s3 * s3 + c3 * c3 = 1"
    by (simp_all add: s1_def c1_def s2_def c2_def s3_def c3_def add.commute)
  note m = matrix_entries [OF h x_def y_def z_def w_def]
  have sb: "sin b = 2 * s1 * c1" and cb: "cos b = c1 * c1 - s1 * s1"
    and sa: "sin a = 2 * s2 * c2" and ca: "cos a = c2 * c2 - s2 * s2"
    and sc: "sin c = 2 * s3 * c3" and cc: "cos c = c3 * c3 - s3 * s3"
    unfolding s1_def c1_def s2_def c2_def s3_def c3_def by (rule sin_cos_half)+
  have q: "euler_quaternion \<lparr> ex = b, ey = a, ez = c, order = ''YXZ'' \<rparr>
      = \<lparr> qx = x, qy = y, qz = z, qw = w \<rparr>"
    by (simp add: euler_quaternion_YXZ x_def y_def z_def w_def s1_def c1_def s2_def c2_def
        s3_def c3_def)
  show ?thesis
    unfolding q
  proof (rule quaternion_euler_of_matrix [OF _ _ _ _ _ assms])
    show "2 * (y * z - w * x) = - sin b" using m(1) sb by simp
    show "2 * (x * z + w * y) = sin a * cos b" using m(2) sa cb by simp
    show "1 - 2 * (x * x + y * y) = cos a * cos b" using m(3) ca cb by simp
    show "2 * (x * y + w * z) = sin c * cos b" using m(4) sc cb by (simp add: mult.commute)
    show "1 - 2 * (x * x + z * z) = cos c * cos b" using m(5) cc cb by (simp add: mult.commute)
  qed
qed

lemma quaternion_euler_round_trip:
  assumes "\<bar>b\<bar> < pi / 2" and "\<bar>sin b\<bar> < 9999999 / 10000000"
    and "- pi < a" and "a \<le> pi" and "- pi < c" and "c \<le> pi"
  shows "quaternion_euler (euler_quaternion \<lparr> ex = b, ey = a, ez = c, order = ''YXZ'' \<rparr>) ''YXZ''
     = \<lparr> ex = b, ey = a, ez = c, order = ''YXZ'' \<rparr>"
proof -
  have pos: "0 < cos b"
    using assms(1) by (intro cos_gt_zero_pi) linarith+
  have "arcsin (sin b) = b"
    using assms(1) by (intro arcsin_sin) linarith+
  with atan2_polar [OF pos assms(3,4)] atan2_polar [OF pos assms(5,6)] show ?thesis
    by (simp add: quaternion_euler_YXZ [OF assms(2)])
qed

lemma three_quarter_turn_decomposed:
  "quaternion_euler (euler_quaternion \<lparr> ex = 0, ey = 3 / 2 * pi, ez = 0, order = ''YXZ'' \<rparr>)
       ''YXZ''
     = \<lparr> ex = 0, ey = - (pi / 2), ez = 0, order = ''YXZ'' \<rparr>"
proof -
  have small: "\<bar>sin (0::real)\<bar> < 9999999 / 10000000" by simp
  have turn: "sin (3 * pi / 2) = - 1" "cos (3 * pi / 2) = 0"
    using sin_3over2_pi cos_3over2_pi by simp_all
  from quaternion_euler_YXZ [OF small, of "3 / 2 * pi" 0] show ?thesis
    by (simp add: atan2_def turn)
qed

lemma net_of_corrections_composed:
  "net_of_corrections
     (hamilton (hamilton e (rotation_about \<lparr> vx = 1, vy = 0, vz = 0 \<rparr> (- (pi / 2))))
        (rotation_about \<lparr> vx = 0, vy = 0, vz = 1 \<rparr> (- orient))) orient = e"
proof -
  let ?X = "\<lparr> vx = 1, vy = 0, vz = 0 \<rparr> :: vector3"
  let ?Z = "\<lparr> vx = 0, vy = 0, vz = 1 \<rparr> :: vector3"
  have z: "hamilton (rotation_about ?Z (- orient)) (rotation_about ?Z orient)
      = \<lparr> qx = 0, qy = 0, qz = 0, qw = 1 \<rparr>"
    by (rule rotation_about_inverse) simp
  have x: "hamilton (rotation_about ?X (- (pi / 2))) (rotation_about ?X (pi / 2))
      = \<lparr> qx = 0, qy = 0, qz = 0, qw = 1 \<rparr>"
    by (rule rotation_about_inverse) simp
  have "net_of_corrections
     (hamilton (hamilton e (rotation_about ?X (- (pi / 2)))) (rotation_about ?Z (- orient)))
     orient
     = hamilton (hamilton (hamilton e (rotation_about ?X (- (pi / 2))))
         (hamilton (rotation_about ?Z (- orient)) (rotation_about ?Z orient)))
         (rotation_about ?X (pi / 2))"
    by (simp only: net_of_corrections_def hamilton_assoc)
  also have "\<dots> = hamilton e
      (hamilton (rotation_about ?X (- (pi / 2))) (rotation_about ?X (pi / 2)))"
    by (simp only: z hamilton_identity hamilton_assoc)
  also have "\<dots> = e"
    by (simp only: x hamilton_identity)
  finally show ?thesis .
qed

lemma update_three_js:
  assumes "instances_ready w" and "THREE (g_spec w) = Some example_three"
    and "g_isEnabled w" and "g_deviceOrientation w = Some d"
  shows "fst (update w) =
     Inr (Some (Quat
       (hamilton
         (hamilton
           (euler_quaternion \<lparr> ex = radians_or_zero (beta d), ey = radians_or_zero (alpha d),
                                ez = - radians_or_zero (gamma d), order = ''YXZ'' \<rparr>)
           (rotation_about \<lparr> vx = 1, vy = 0, vz = 0 \<rparr> (- (pi / 2))))
         (rotation_about \<lparr> vx = 0, vy = 0, vz = 1 \<rparr> (- g_screenOrientation w)))))"
proof -
  from assms(1,2) obtain ti where ti: "g_threeInstances w = Some ti" "lib ti = example_three"
      "q1 ti = \<lparr> qx = - sqrt (1 / 2), qy = 0, qz = 0, qw = sqrt (1 / 2) \<rparr>"
      "zee ti = \<lparr> vx = 0, vy = 0, vz = 1 \<rparr>" and three: "g_isThree w"
    by (auto simp add: instances_ready_def split: option.splits)
  from assms(3,4) ti three show ?thesis
    by (simp add: update_def Let_def set_quaternion_def get_deviceEulerAngle_radians
        quarter_turn_about_x example_three_def)
qed

lemma compute_rotation_three_js:
  assumes "instances_ready w" and "THREE (g_spec w) = Some example_three"
  shows "fst (compute_rotation c q w) = Inr (c (quaternion_euler q ''YXZ''))"
  using assms
  by (auto simp add: instances_ready_def compute_rotation_def Let_def example_three_def
      split: option.splits)

lemma errorType_NotAllowed: "errorType ''NotAllowedError: no gesture'' = ''NOTALLOWEDERROR''"
  by code_simp

section \<open>The permission flow\<close>

text \<open>
  C1. Specification: with the permission function present, a denied request still enables
  the subscription and fulfils the ready signal. The code fulfils the signal but calls
  \<^verbatim>\<open>add_eventListeners\<close> only for the response \<^verbatim>\<open>'granted'\<close>: here, after \<^verbatim>\<open>init\<close> and the
  answer \<^verbatim>\<open>'denied'\<close>, the signal is fulfilled, the flag is false and no listener is attached.
\<close>

theorem denied_not_enabled_counterexample:
  "promises (run [Init defaultSpec, PermissionAnswer 0 ''denied'']
       (loaded (DOE_defined True) (Num 0))) = [Fulfilled]
   \<and> \<not> g_isEnabled (run [Init defaultSpec, PermissionAnswer 0 ''denied'']
       (loaded (DOE_defined True) (Num 0)))
   \<and> \<not> listen_deviceorientation (run [Init defaultSpec, PermissionAnswer 0 ''denied'']
       (loaded (DOE_defined True) (Num 0)))
   \<and> \<not> listen_orientationchange (run [Init defaultSpec, PermissionAnswer 0 ''denied'']
       (loaded (DOE_defined True) (Num 0)))"
  by (simp add: flow_defs loaded_def defaultSpec_def Let_def)

text \<open>
  C1, as amended: when the browser answers a request in flight with anything but
  \<^verbatim>\<open>'granted'\<close>, the promise of that request is fulfilled, and the enabled flag and both
  sensor listeners stay as they were; so after \<^verbatim>\<open>init\<close> on a freshly loaded module (no
  \<^verbatim>\<open>DOMTrigger\<close>) and a denial, the ready signal is fulfilled and nothing is subscribed.
\<close>

theorem denied_fulfils_without_subscribing:
  assumes "response \<noteq> ''granted''"
  shows "(i < length (permission_requests v) \<and> p = snd (permission_requests v ! i)
            \<and> p < length (promises v) \<and> promises v ! p = Pending \<longrightarrow>
          promises (step (PermissionAnswer i response) v) ! p = Fulfilled
          \<and> g_isEnabled (step (PermissionAnswer i response) v) = g_isEnabled v
          \<and> listen_deviceorientation (step (PermissionAnswer i response) v)
              = listen_deviceorientation v
          \<and> listen_orientationchange (step (PermissionAnswer i response) v)
              = listen_orientationchange v)
       \<and> (DOMTrigger spec = None \<longrightarrow>
          promises (run [Init spec, PermissionAnswer 0 response] (loaded (DOE_defined True) wo))
            = [Fulfilled]
          \<and> \<not> g_isEnabled
                (run [Init spec, PermissionAnswer 0 response] (loaded (DOE_defined True) wo))
          \<and> \<not> listen_deviceorientation
                (run [Init spec, PermissionAnswer 0 response] (loaded (DOE_defined True) wo))
          \<and> \<not> listen_orientationchange
                (run [Init spec, PermissionAnswer 0 response] (loaded (DOE_defined True) wo)))"
proof (intro conjI impI)
  assume "DOMTrigger spec = None"
  with assms show
    "promises (run [Init spec, PermissionAnswer 0 response] (loaded (DOE_defined True) wo))
       = [Fulfilled]"
    "\<not> g_isEnabled (run [Init spec, PermissionAnswer 0 response] (loaded (DOE_defined True) wo))"
    "\<not> listen_deviceorientation
         (run [Init spec, PermissionAnswer 0 response] (loaded (DOE_defined True) wo))"
    "\<not> listen_orientationchange
         (run [Init spec, PermissionAnswer 0 response] (loaded (DOE_defined True) wo))"
    by (cases "THREE spec"; simp add: flow_defs loaded_def Let_def)+
qed (use assms in \<open>auto simp add: requestPermission_then_def settle_promise_def Let_def\<close>)

theorem denied_fulfils_without_subscribing_witness:
  "''denied'' \<noteq> ''granted''
   \<and> promises (step (PermissionAnswer 0 ''denied'')
        (run [Init spec_three] (loaded (DOE_defined True) (Num 90)))) ! 0 = Fulfilled
   \<and> \<not> g_isEnabled (step (PermissionAnswer 0 ''denied'')
        (run [Init spec_three] (loaded (DOE_defined True) (Num 90))))
   \<and> promises (run [Init spec_three, PermissionAnswer 0 ''denied'']
        (loaded (DOE_defined True) (Num 90))) = [Fulfilled]"
proof -
  have h: "''denied'' \<noteq> ''granted''" by simp
  show ?thesis
    using h denied_fulfils_without_subscribing [OF h, where i = 0 and p = 0
        and v = "run [Init spec_three] (loaded (DOE_defined True) (Num 90))"
        and spec = spec_three and wo = "Num 90"]
    by (simp add: flow_defs loaded_def spec_three_def defaultSpec_def Let_def)
qed

subsection \<open>Clicks on a platform without the permission function\<close>

lemma in_set_remove1_other: "y \<noteq> x \<Longrightarrow> y \<in> set (remove1 x xs) \<longleftrightarrow> y \<in> set xs"
  by (induction xs) auto

lemma run_listener_keeps_trigger:
  "(t, TriggerClick p) \<in> set (click_listeners v) \<Longrightarrow>
   (t, TriggerClick p) \<in> set (click_listeners (run_listener h v))"
  by (cases h) (simp_all add: retry_def Let_def request_API_def in_set_remove1_other)

lemma run_listener_promises_length:
  "length (promises (run_listener h v)) = length (promises v)"
  by (cases h)
    (simp_all add: retry_def trigger_click_def Let_def request_API_def settle_promise_def)

lemma run_listener_absent_reject:
  assumes "\<not> has_requestPermission (window_DeviceOrientationEvent v)"
    and "isRejectIfMissing (g_spec v)"
  shows "g_isEnabled (run_listener h v) = g_isEnabled v"
    and "listen_deviceorientation (run_listener h v) = listen_deviceorientation v"
    and "listen_orientationchange (run_listener h v) = listen_orientationchange v"
    and "promises v ! q = Rejected \<Longrightarrow> promises (run_listener h v) ! q = Rejected"
    and "q < length (promises v) \<Longrightarrow> promises v ! q = Pending \<Longrightarrow>
         promises (run_listener h v) ! q = Pending \<or> promises (run_listener h v) ! q = Rejected"
    and "q < length (promises v) \<Longrightarrow> promises v ! q = Pending \<Longrightarrow>
         promises (run_listener (TriggerClick q) v) ! q = Rejected"
  using assms
  by (cases h; simp add: retry_def trigger_click_def Let_def request_API_def settle_promise_def
      display_alert_def nth_list_update)+

lemma run_listener_absent_accept:
  assumes "\<not> has_requestPermission (window_DeviceOrientationEvent v)"
    and "\<not> isRejectIfMissing (g_spec v)"
  shows "g_isEnabled (run_listener h v)"
    and "listen_deviceorientation (run_listener h v)"
    and "listen_orientationchange (run_listener h v)"
    and "promises v ! q = Fulfilled \<Longrightarrow> promises (run_listener h v) ! q = Fulfilled"
    and "q < length (promises v) \<Longrightarrow> promises v ! q = Pending \<Longrightarrow>
         promises (run_listener h v) ! q = Pending \<or> promises (run_listener h v) ! q = Fulfilled"
    and "q < length (promises v) \<Longrightarrow> promises v ! q = Pending \<Longrightarrow>
         promises (run_listener (TriggerClick q) v) ! q = Fulfilled"
  using assms
  by (cases h; simp add: retry_def trigger_click_def Let_def request_API_def settle_promise_def
      display_alert_def add_eventListeners_def nth_list_update)+

lemma fire_absent_reject:
  assumes "\<not> has_requestPermission (window_DeviceOrientationEvent v)"
    and "isRejectIfMissing (g_spec v)" and "p < length (promises v)"
    and "promises v ! p = Rejected
         \<or> promises v ! p = Pending \<and> (t, TriggerClick p) \<in> set ls
            \<and> (t, TriggerClick p) \<in> set (click_listeners v)"
  shows "promises (fire ls v) ! p = Rejected \<and> g_isEnabled (fire ls v) = g_isEnabled v
       \<and> listen_deviceorientation (fire ls v) = listen_deviceorientation v
       \<and> listen_orientationchange (fire ls v) = listen_orientationchange v"
  using assms
proof (induction ls arbitrary: v)
  case Nil
  then show ?case by simp
next
  case (Cons l ls)
  let ?v = "if l \<in> set (click_listeners v) then run_listener (snd l) v else v"
  have absent: "\<not> has_requestPermission (window_DeviceOrientationEvent ?v)"
    and flag: "isRejectIfMissing (g_spec ?v)"
    using Cons.prems(1,2) by simp_all
  have len: "p < length (promises ?v)"
    using Cons.prems(3) by (simp add: run_listener_promises_length)
  have same: "g_isEnabled ?v = g_isEnabled v"
      "listen_deviceorientation ?v = listen_deviceorientation v"
      "listen_orientationchange ?v = listen_orientationchange v"
    using run_listener_absent_reject(1-3) [OF Cons.prems(1,2)] by simp_all
  have state: "promises ?v ! p = Rejected
      \<or> promises ?v ! p = Pending \<and> (t, TriggerClick p) \<in> set ls
         \<and> (t, TriggerClick p) \<in> set (click_listeners ?v)"
  proof (cases "promises v ! p = Rejected")
    case True
    then show ?thesis
      using run_listener_absent_reject(4) [OF Cons.prems(1,2)] by simp
  next
    case False
    with Cons.prems(4) have pend: "promises v ! p = Pending"
      and mem: "(t, TriggerClick p) \<in> set (l # ls)"
      and reg: "(t, TriggerClick p) \<in> set (click_listeners v)"
      by simp_all
    show ?thesis
    proof (cases "l = (t, TriggerClick p)")
      case True
      then show ?thesis
        using reg pend run_listener_absent_reject(6) [OF Cons.prems(1,2,3)] by simp
    next
      case False
      with mem have "(t, TriggerClick p) \<in> set ls" by auto
      moreover have "(t, TriggerClick p) \<in> set (click_listeners ?v)"
        using reg by (simp add: run_listener_keeps_trigger)
      moreover have "promises ?v ! p = Pending \<or> promises ?v ! p = Rejected"
        using pend run_listener_absent_reject(5) [OF Cons.prems(1,2,3)] by simp
      ultimately show ?thesis by blast
    qed
  qed
  from Cons.IH [OF absent flag len state] same show ?case by simp
qed

lemma fire_absent_accept:
  assumes "\<not> has_requestPermission (window_DeviceOrientationEvent v)"
    and "\<not> isRejectIfMissing (g_spec v)" and "p < length (promises v)"
    and "promises v ! p = Fulfilled \<and> g_isEnabled v \<and> listen_deviceorientation v
           \<and> listen_orientationchange v
         \<or> promises v ! p = Pending \<and> (t, TriggerClick p) \<in> set ls
            \<and> (t, TriggerClick p) \<in> set (click_listeners v)"
  shows "promises (fire ls v) ! p = Fulfilled \<and> g_isEnabled (fire ls v)
       \<and> listen_deviceorientation (fire ls v) \<and> listen_orientationchange (fire ls v)"
  using assms
proof (induction ls arbitrary: v)
  case Nil
  then show ?case by simp
next
  case (Cons l ls)
  let ?v = "if l \<in> set (click_listeners v) then run_listener (snd l) v else v"
  have absent: "\<not> has_requestPermission (window_DeviceOrientationEvent ?v)"
    and flag: "\<not> isRejectIfMissing (g_spec ?v)"
    using Cons.prems(1,2) by simp_all
  have len: "p < length (promises ?v)"
    using Cons.prems(3) by (simp add: run_listener_promises_length)
  have state: "promises ?v ! p = Fulfilled \<and> g_isEnabled ?v \<and> listen_deviceorientation ?v
           \<and> listen_orientationchange ?v
      \<or> promises ?v ! p = Pending \<and> (t, TriggerClick p) \<in> set ls
         \<and> (t, TriggerClick p) \<in> set (click_listeners ?v)"
  proof (cases "promises v ! p = Fulfilled")
    case True
    with Cons.prems(4) have "g_isEnabled v" "listen_deviceorientation v"
        "listen_orientationchange v"
      by simp_all
    with True show ?thesis
      using run_listener_absent_accept(1-4) [OF Cons.prems(1,2)] by simp
  next
    case False
    with Cons.prems(4) have pend: "promises v ! p = Pending"
      and mem: "(t, TriggerClick p) \<in> set (l # ls)"
      and reg: "(t, TriggerClick p) \<in> set (click_listeners v)"
      by simp_all
    show ?thesis
    proof (cases "l = (t, TriggerClick p)")
      case True
      then show ?thesis
        using reg pend Cons.prems(3)
          run_listener_absent_accept(1-3) [OF Cons.prems(1,2), where h = "TriggerClick p"]
          run_listener_absent_accept(6) [OF Cons.prems(1,2)]
        by simp
    next
      case False
      with mem have in_ls: "(t, TriggerClick p) \<in> set ls" by auto
      have reg': "(t, TriggerClick p) \<in> set (click_listeners ?v)"
        using reg by (simp add: run_listener_keeps_trigger)
      show ?thesis
      proof (cases "l \<in> set (click_listeners v)")
        case True
        then show ?thesis
          using in_ls reg' pend
            run_listener_absent_accept(1-3) [OF Cons.prems(1,2), where h = "snd l"]
            run_listener_absent_accept(5) [OF Cons.prems(1,2,3), where h = "snd l"]
          by auto
      next
        case False
        then show ?thesis using in_ls reg pend by simp
      qed
    qed
  qed
  from Cons.IH [OF absent flag len state] show ?case by simp
qed


lemma fire_promises_length: "length (promises (fire ls v)) = length (promises v)"
  by (induction ls arbitrary: v) (simp_all add: run_listener_promises_length)

lemma init_with_trigger:
  assumes "DOMTrigger spec = Some d"
  shows "fst (init spec w) = length (promises w)"
    and "promises (snd (init spec w)) = promises w @ [Pending]"
    and "click_listeners (snd (init spec w))
           = click_listeners w @ [(Elem d, TriggerClick (length (promises w)))]"
    and "g_spec (snd (init spec w)) = spec"
    and "g_isEnabled (snd (init spec w)) = g_isEnabled w"
    and "listen_deviceorientation (snd (init spec w)) = listen_deviceorientation w"
    and "listen_orientationchange (snd (init spec w)) = listen_orientationchange w"
    and "permission_requests (snd (init spec w)) = permission_requests w"
  using assms by (cases "THREE spec"; simp add: init_def Let_def)+

lemma click_trigger_absent_reject:
  assumes "\<not> has_requestPermission (window_DeviceOrientationEvent w)"
    and "DOMTrigger spec = Some d" and "isRejectIfMissing spec"
  shows "promises (click (Elem d) (snd (init spec w))) ! length (promises w) = Rejected"
    and "g_isEnabled (click (Elem d) (snd (init spec w))) = g_isEnabled w"
    and "listen_deviceorientation (click (Elem d) (snd (init spec w)))
           = listen_deviceorientation w"
    and "listen_orientationchange (click (Elem d) (snd (init spec w)))
           = listen_orientationchange w"
proof -
  let ?p = "length (promises w)"
  let ?w = "snd (init spec w)"
  let ?w1 = "fire (filter (\<lambda>l. fst l = Elem d) (click_listeners ?w)) ?w"
  let ?w2 = "fire (filter (\<lambda>l. fst l = Window) (click_listeners ?w1)) ?w1"
  note i = init_with_trigger [OF assms(2), of w]
  have absent: "\<not> has_requestPermission (window_DeviceOrientationEvent ?w)"
    using assms(1) by simp
  have flag: "isRejectIfMissing (g_spec ?w)"
    using assms(3) i(4) by simp
  have len: "?p < length (promises ?w)"
    using i(2) by simp
  have start: "promises ?w ! ?p = Rejected
      \<or> promises ?w ! ?p = Pending
         \<and> (Elem d, TriggerClick ?p) \<in> set (filter (\<lambda>l. fst l = Elem d) (click_listeners ?w))
         \<and> (Elem d, TriggerClick ?p) \<in> set (click_listeners ?w)"
    using i(2,3) by simp
  note one = fire_absent_reject [OF absent flag len start]
  have absent1: "\<not> has_requestPermission (window_DeviceOrientationEvent ?w1)"
    using assms(1) by simp
  have flag1: "isRejectIfMissing (g_spec ?w1)"
    using flag by simp
  have len1: "?p < length (promises ?w1)"
    using len by (simp add: fire_promises_length)
  have start1: "promises ?w1 ! ?p = Rejected
      \<or> promises ?w1 ! ?p = Pending
         \<and> (Window, TriggerClick ?p)
             \<in> set (filter (\<lambda>l. fst l = Window) (click_listeners ?w1))
         \<and> (Window, TriggerClick ?p) \<in> set (click_listeners ?w1)"
    using one by simp
  note two = fire_absent_reject [OF absent1 flag1 len1 start1]
  have c: "click (Elem d) ?w = ?w2"
    by (simp add: click_def Let_def)
  show "promises (click (Elem d) ?w) ! ?p = Rejected"
    using two c by simp
  show "g_isEnabled (click (Elem d) ?w) = g_isEnabled w"
    using one two c i(5) by simp
  show "listen_deviceorientation (click (Elem d) ?w) = listen_deviceorientation w"
    using one two c i(6) by simp
  show "listen_orientationchange (click (Elem d) ?w) = listen_orientationchange w"
    using one two c i(7) by simp
qed

lemma click_trigger_absent_accept:
  assumes "\<not> has_requestPermission (window_DeviceOrientationEvent w)"
    and "DOMTrigger spec = Some d" and "\<not> isRejectIfMissing spec"
  shows "promises (click (Elem d) (snd (init spec w))) ! length (promises w) = Fulfilled"
    and "g_isEnabled (click (Elem d) (snd (init spec w)))"
    and "listen_deviceorientation (click (Elem d) (snd (init spec w)))"
    and "listen_orientationchange (click (Elem d) (snd (init spec w)))"
proof -
  let ?p = "length (promises w)"
  let ?w = "snd (init spec w)"
  let ?w1 = "fire (filter (\<lambda>l. fst l = Elem d) (click_listeners ?w)) ?w"
  let ?w2 = "fire (filter (\<lambda>l. fst l = Window) (click_listeners ?w1)) ?w1"
  note i = init_with_trigger [OF assms(2), of w]
  have absent: "\<not> has_requestPermission (window_DeviceOrientationEvent ?w)"
    using assms(1) by simp
  have flag: "\<not> isRejectIfMissing (g_spec ?w)"
    using assms(3) i(4) by simp
  have len: "?p < length (promises ?w)"
    using i(2) by simp
  have start: "promises ?w ! ?p = Fulfilled \<and> g_isEnabled ?w \<and> listen_deviceorientation ?w
         \<and> listen_orientationchange ?w
      \<or> promises ?w ! ?p = Pending
         \<and> (Elem d, TriggerClick ?p) \<in> set (filter (\<lambda>l. fst l = Elem d) (click_listeners ?w))
         \<and> (Elem d, TriggerClick ?p) \<in> set (click_listeners ?w)"
    using i(2,3) by simp
  note one = fire_absent_accept [OF absent flag len start]
  have absent1: "\<not> has_requestPermission (window_DeviceOrientationEvent ?w1)"
    using assms(1) by simp
  have flag1: "\<not> isRejectIfMissing (g_spec ?w1)"
    using flag by simp
  have len1: "?p < length (promises ?w1)"
    using len by (simp add: fire_promises_length)
  have start1: "promises ?w1 ! ?p = Fulfilled \<and> g_isEnabled ?w1 \<and> listen_deviceorientation ?w1
         \<and> listen_orientationchange ?w1
      \<or> promises ?w1 ! ?p = Pending
         \<and> (Window, TriggerClick ?p)
             \<in> set (filter (\<lambda>l. fst l = Window) (click_listeners ?w1))
         \<and> (Window, TriggerClick ?p) \<in> set (click_listeners ?w1)"
    using one by simp
  note two = fire_absent_accept [OF absent1 flag1 len1 start1]
  have c: "click (Elem d) ?w = ?w2"
    by (simp add: click_def Let_def)
  show "promises (click (Elem d) ?w) ! ?p = Fulfilled"
    and "g_isEnabled (click (Elem d) ?w)"
    and "listen_deviceorientation (click (Elem d) ?w)"
    and "listen_orientationchange (click (Elem d) ?w)"
    using two c by simp_all
qed


text \<open>
  C6. Specification: with the permission capability absent, the ready signal of \<^verbatim>\<open>init\<close> rejects
  when \<^verbatim>\<open>isRejectIfMissing\<close> is set, and otherwise the subscription is enabled and the signal
  fulfils. With a \<^verbatim>\<open>DOMTrigger\<close> configured, \<^verbatim>\<open>init\<close> on any platform only registers a click
  listener: here the ready signal is still pending after \<^verbatim>\<open>init\<close>, with \<^verbatim>\<open>isRejectIfMissing\<close> set
  and without, nothing is enabled, and a sensor event is not stored.
\<close>

theorem trigger_defers_request_counterexample:
  "promises (snd (init (defaultSpec\<lparr> DOMTrigger := Some 7, isRejectIfMissing := True \<rparr>)
       (loaded DOE_undefined (Num 0)))) = [Pending]
   \<and> promises (snd (init (defaultSpec\<lparr> DOMTrigger := Some 7 \<rparr>)
       (loaded DOE_undefined (Num 0)))) = [Pending]
   \<and> \<not> g_isEnabled (snd (init (defaultSpec\<lparr> DOMTrigger := Some 7 \<rparr>)
       (loaded DOE_undefined (Num 0))))
   \<and> \<not> listen_deviceorientation (snd (init (defaultSpec\<lparr> DOMTrigger := Some 7 \<rparr>)
       (loaded DOE_undefined (Num 0))))
   \<and> g_deviceOrientation (step (Sensor sample_full)
       (snd (init (defaultSpec\<lparr> DOMTrigger := Some 7 \<rparr>) (loaded DOE_undefined (Num 0)))))
     = None"
  by (simp add: flow_defs loaded_def defaultSpec_def Let_def)

text \<open>
  C6, as amended: with the permission capability absent, a call of \<^verbatim>\<open>request_API\<close> on a pending
  promise rejects it when \<^verbatim>\<open>isRejectIfMissing\<close> is set, leaving the enabled flag as it was;
  otherwise it sets the flag, attaches both listeners and fulfils the promise, and a later
  sensor event without a null field is stored. \<^verbatim>\<open>init\<close> makes that call at once when no
  \<^verbatim>\<open>DOMTrigger\<close> is configured, so its ready signal is settled in this way when it returns.
  With a \<^verbatim>\<open>DOMTrigger\<close> configured, \<^verbatim>\<open>init\<close> leaves the ready signal pending and the flag and
  listeners as they were, and the call is made by the click on the \<^verbatim>\<open>DOMTrigger\<close>: after that
  click the ready signal is settled in the same way.
\<close>

theorem capability_absent:
  assumes "\<not> has_requestPermission (window_DeviceOrientationEvent w)"
  shows "(p < length (promises w) \<and> promises w ! p = Pending \<longrightarrow>
          (if isRejectIfMissing (g_spec w)
           then promises (request_API n p w) ! p = Rejected
                \<and> g_isEnabled (request_API n p w) = g_isEnabled w
           else promises (request_API n p w) ! p = Fulfilled
                \<and> g_isEnabled (request_API n p w)
                \<and> listen_deviceorientation (request_API n p w)
                \<and> listen_orientationchange (request_API n p w)
                \<and> (non_null ev \<longrightarrow>
                     g_deviceOrientation (step (Sensor ev) (request_API n p w)) = Some ev)))
       \<and> (DOMTrigger spec = None \<longrightarrow>
          (if isRejectIfMissing spec
           then promises (snd (init spec w)) ! fst (init spec w) = Rejected
                \<and> g_isEnabled (snd (init spec w)) = g_isEnabled w
           else promises (snd (init spec w)) ! fst (init spec w) = Fulfilled
                \<and> g_isEnabled (snd (init spec w))
                \<and> listen_deviceorientation (snd (init spec w))
                \<and> listen_orientationchange (snd (init spec w))
                \<and> (non_null ev \<longrightarrow>
                     g_deviceOrientation (step (Sensor ev) (snd (init spec w))) = Some ev)))
       \<and> (DOMTrigger spec = Some d \<longrightarrow>
          promises (snd (init spec w)) ! fst (init spec w) = Pending
          \<and> g_isEnabled (snd (init spec w)) = g_isEnabled w
          \<and> listen_deviceorientation (snd (init spec w)) = listen_deviceorientation w
          \<and> listen_orientationchange (snd (init spec w)) = listen_orientationchange w
          \<and> (if isRejectIfMissing spec
              then promises (step (Click (Elem d)) (snd (init spec w))) ! fst (init spec w)
                     = Rejected
                   \<and> g_isEnabled (step (Click (Elem d)) (snd (init spec w))) = g_isEnabled w
              else promises (step (Click (Elem d)) (snd (init spec w))) ! fst (init spec w)
                     = Fulfilled
                   \<and> g_isEnabled (step (Click (Elem d)) (snd (init spec w)))
                   \<and> listen_deviceorientation (step (Click (Elem d)) (snd (init spec w)))
                   \<and> listen_orientationchange (step (Click (Elem d)) (snd (init spec w)))
                   \<and> (non_null ev \<longrightarrow>
                        g_deviceOrientation
                          (step (Sensor ev) (step (Click (Elem d)) (snd (init spec w))))
                        = Some ev)))"
proof (intro conjI impI)
  assume "p < length (promises w) \<and> promises w ! p = Pending"
  with assms show
    "if isRejectIfMissing (g_spec w)
     then promises (request_API n p w) ! p = Rejected
          \<and> g_isEnabled (request_API n p w) = g_isEnabled w
     else promises (request_API n p w) ! p = Fulfilled
          \<and> g_isEnabled (request_API n p w)
          \<and> listen_deviceorientation (request_API n p w)
          \<and> listen_orientationchange (request_API n p w)
          \<and> (non_null ev \<longrightarrow>
               g_deviceOrientation (step (Sensor ev) (request_API n p w)) = Some ev)"
    by (simp add: request_API_def settle_promise_def display_alert_def add_eventListeners_def
        onDeviceOrientationChangeEvent_def non_null_def)
next
  assume "DOMTrigger spec = None"
  with assms show
    "if isRejectIfMissing spec
     then promises (snd (init spec w)) ! fst (init spec w) = Rejected
          \<and> g_isEnabled (snd (init spec w)) = g_isEnabled w
     else promises (snd (init spec w)) ! fst (init spec w) = Fulfilled
          \<and> g_isEnabled (snd (init spec w))
          \<and> listen_deviceorientation (snd (init spec w))
          \<and> listen_orientationchange (snd (init spec w))
          \<and> (non_null ev \<longrightarrow>
               g_deviceOrientation (step (Sensor ev) (snd (init spec w))) = Some ev)"
    by (cases "THREE spec") (simp_all add: flow_defs Let_def non_null_def nth_append)
next
  assume d: "DOMTrigger spec = Some d"
  note i = init_with_trigger [OF d, of w]
  show "promises (snd (init spec w)) ! fst (init spec w) = Pending"
    using i(1,2) by simp
  show "g_isEnabled (snd (init spec w)) = g_isEnabled w"
    and "listen_deviceorientation (snd (init spec w)) = listen_deviceorientation w"
    and "listen_orientationchange (snd (init spec w)) = listen_orientationchange w"
    by (fact i(5) i(6) i(7))+
  show "if isRejectIfMissing spec
        then promises (step (Click (Elem d)) (snd (init spec w))) ! fst (init spec w)
               = Rejected
             \<and> g_isEnabled (step (Click (Elem d)) (snd (init spec w))) = g_isEnabled w
        else promises (step (Click (Elem d)) (snd (init spec w))) ! fst (init spec w)
               = Fulfilled
             \<and> g_isEnabled (step (Click (Elem d)) (snd (init spec w)))
             \<and> listen_deviceorientation (step (Click (Elem d)) (snd (init spec w)))
             \<and> listen_orientationchange (step (Click (Elem d)) (snd (init spec w)))
             \<and> (non_null ev \<longrightarrow>
                  g_deviceOrientation
                    (step (Sensor ev) (step (Click (Elem d)) (snd (init spec w))))
                  = Some ev)"
  proof (cases "isRejectIfMissing spec")
    case True
    then show ?thesis
      using click_trigger_absent_reject(1,2) [OF assms d True] i(1) by simp
  next
    case False
    then show ?thesis
      using click_trigger_absent_accept [OF assms d False] i(1)
      by (simp add: onDeviceOrientationChangeEvent_def non_null_def)
  qed
qed

theorem capability_absent_witness:
  "\<not> has_requestPermission (window_DeviceOrientationEvent (loaded DOE_undefined (Num 0)))
   \<and> promises (snd (init defaultSpec (loaded DOE_undefined (Num 0)))) ! 0 = Fulfilled
   \<and> g_isEnabled (snd (init defaultSpec (loaded DOE_undefined (Num 0))))
   \<and> g_deviceOrientation
        (step (Sensor sample_full) (snd (init defaultSpec (loaded DOE_undefined (Num 0)))))
       = Some sample_full
   \<and> promises (snd (init (defaultSpec\<lparr> isRejectIfMissing := True \<rparr>)
        (loaded (DOE_defined False) (Num 0)))) ! 0 = Rejected
   \<and> \<not> g_isEnabled (snd (init (defaultSpec\<lparr> isRejectIfMissing := True \<rparr>)
        (loaded (DOE_defined False) (Num 0))))
   \<and> promises (snd (init (defaultSpec\<lparr> DOMTrigger := Some 7, isRejectIfMissing := True \<rparr>)
        (loaded DOE_undefined (Num 0)))) ! 0 = Pending
   \<and> promises (step (Click (Elem 7))
        (snd (init (defaultSpec\<lparr> DOMTrigger := Some 7, isRejectIfMissing := True \<rparr>)
          (loaded DOE_undefined (Num 0))))) ! 0 = Rejected
   \<and> promises (step (Click (Elem 7))
        (snd (init (defaultSpec\<lparr> DOMTrigger := Some 7 \<rparr>) (loaded DOE_undefined (Num 0))))) ! 0
       = Fulfilled
   \<and> g_deviceOrientation (step (Sensor sample_full) (step (Click (Elem 7))
        (snd (init (defaultSpec\<lparr> DOMTrigger := Some 7 \<rparr>) (loaded DOE_undefined (Num 0))))))
       = Some sample_full"
proof -
  have h: "\<not> has_requestPermission (window_DeviceOrientationEvent (loaded DOE_undefined (Num 0)))"
    by (simp add: loaded_def)
  have h': "\<not> has_requestPermission
      (window_DeviceOrientationEvent (loaded (DOE_defined False) (Num 0)))"
    by (simp add: loaded_def)
  have a: "promises (snd (init defaultSpec (loaded DOE_undefined (Num 0)))) ! 0 = Fulfilled
     \<and> g_isEnabled (snd (init defaultSpec (loaded DOE_undefined (Num 0))))
     \<and> g_deviceOrientation
          (step (Sensor sample_full) (snd (init defaultSpec (loaded DOE_undefined (Num 0)))))
         = Some sample_full"
    using capability_absent [OF h, where spec = defaultSpec and ev = sample_full]
    by (simp add: flow_defs loaded_def defaultSpec_def non_null_def sample_full_def Let_def)
  have b: "promises (snd (init (defaultSpec\<lparr> isRejectIfMissing := True \<rparr>)
        (loaded (DOE_defined False) (Num 0)))) ! 0 = Rejected
     \<and> \<not> g_isEnabled (snd (init (defaultSpec\<lparr> isRejectIfMissing := True \<rparr>)
        (loaded (DOE_defined False) (Num 0))))"
    using capability_absent [OF h', where spec = "defaultSpec\<lparr> isRejectIfMissing := True \<rparr>"]
    by (simp add: flow_defs loaded_def defaultSpec_def Let_def)
  have f: "fst (init spec (loaded DOE_undefined (Num 0))) = 0" for spec
    by (cases "THREE spec"; cases "DOMTrigger spec") (simp_all add: init_def Let_def loaded_def)
  have c: "promises (snd (init (defaultSpec\<lparr> DOMTrigger := Some 7, isRejectIfMissing := True \<rparr>)
        (loaded DOE_undefined (Num 0)))) ! 0 = Pending
     \<and> promises (step (Click (Elem 7))
        (snd (init (defaultSpec\<lparr> DOMTrigger := Some 7, isRejectIfMissing := True \<rparr>)
          (loaded DOE_undefined (Num 0))))) ! 0 = Rejected"
    using capability_absent [OF h, where d = 7
        and spec = "defaultSpec\<lparr> DOMTrigger := Some 7, isRejectIfMissing := True \<rparr>"]
    by (simp add: f defaultSpec_def del: step.simps)
  have d: "promises (step (Click (Elem 7))
        (snd (init (defaultSpec\<lparr> DOMTrigger := Some 7 \<rparr>) (loaded DOE_undefined (Num 0))))) ! 0
       = Fulfilled
     \<and> g_deviceOrientation (step (Sensor sample_full) (step (Click (Elem 7))
        (snd (init (defaultSpec\<lparr> DOMTrigger := Some 7 \<rparr>) (loaded DOE_undefined (Num 0))))))
       = Some sample_full"
    using capability_absent [OF h, where d = 7 and ev = sample_full
        and spec = "defaultSpec\<lparr> DOMTrigger := Some 7 \<rparr>"]
    by (simp add: f defaultSpec_def non_null_def sample_full_def del: step.simps)
  from h a b c d show ?thesis by blast
qed

text \<open>
  C4. On a platform with the permission function, \<^verbatim>\<open>init\<close> without a \<^verbatim>\<open>DOMTrigger\<close> issues the
  request at once. If it fails with an error whose type reads \<^verbatim>\<open>NOTALLOWEDERROR\<close>, one click
  listener \<^verbatim>\<open>retry\<close> is put on \<^verbatim>\<open>DOMRetryTrigger\<close>, or on \<^verbatim>\<open>window\<close> when none is configured,
  and the ready signal stays pending. One click there removes the listener and puts
  exactly one new request in flight, with retry count 1, the signal still pending. If that
  request fails in the same way, the signal is rejected and no listener is left. In any
  world, such a failure of a request rejects its pending promise and registers nothing
  when a \<^verbatim>\<open>DOMTrigger\<close> is configured or the request's retry count is not 0. And in every
  reachable world each request in flight has retry count at most 1 and each \<^verbatim>\<open>retry\<close>
  listener has count 0: there is never a second retry.
\<close>

theorem retry_at_most_once:
  assumes "errorType e1 = ''NOTALLOWEDERROR''" and "errorType e2 = ''NOTALLOWEDERROR''"
    and "DOMTrigger spec = None"
    and "rt = (case DOMRetryTrigger spec of None \<Rightarrow> Window | Some el \<Rightarrow> Elem el)"
    and "w1 = run [Init spec, PermissionError 0 e1] (loaded (DOE_defined True) wo)"
    and "w2 = step (Click rt) w1"
    and "w3 = step (PermissionError 0 e2) w2"
  shows "click_listeners w1 = [(rt, Retry rt 0 0)] \<and> permission_requests w1 = []
       \<and> promises w1 = [Pending]
       \<and> click_listeners w2 = [] \<and> permission_requests w2 = [(1, 0)] \<and> promises w2 = [Pending]
       \<and> click_listeners w3 = [] \<and> permission_requests w3 = [] \<and> promises w3 = [Rejected]
       \<and> (i < length (permission_requests v) \<and> (n, p) = permission_requests v ! i
            \<and> p < length (promises v) \<and> promises v ! p = Pending
            \<and> (DOMTrigger (g_spec v) \<noteq> None \<or> n \<noteq> 0) \<longrightarrow>
          promises (step (PermissionError i e1) v) ! p = Rejected
          \<and> click_listeners (step (PermissionError i e1) v) = click_listeners v
          \<and> permission_requests (step (PermissionError i e1) v)
              = take i (permission_requests v) @ drop (Suc i) (permission_requests v))
       \<and> list_all (\<lambda>r. fst r \<le> 1) (permission_requests (run es (loaded doe wo')))
       \<and> list_all retry_count_ok (click_listeners (run es (loaded doe wo')))"
proof (intro conjI impI)
  have w1: "click_listeners w1 = [(rt, Retry rt 0 0)]" "permission_requests w1 = []"
      "promises w1 = [Pending]" "g_spec w1 = spec"
      "window_DeviceOrientationEvent w1 = DOE_defined True"
    using assms(1,3,4,5)
    by (cases "THREE spec"; simp add: flow_defs loaded_def Let_def)+
  show "click_listeners w1 = [(rt, Retry rt 0 0)]" "permission_requests w1 = []"
      "promises w1 = [Pending]"
    by (fact w1)+
  have w2: "click_listeners w2 = []" "permission_requests w2 = [(1, 0)]"
      "promises w2 = [Pending]" "g_spec w2 = spec"
    using w1 assms(6)
    by (cases rt; simp add: click_def retry_def request_API_def display_alert_def Let_def)+
  show "click_listeners w2 = []" "permission_requests w2 = [(1, 0)]" "promises w2 = [Pending]"
    by (fact w2)+
  show "click_listeners w3 = []" "permission_requests w3 = []" "promises w3 = [Rejected]"
    using w2 assms(2,7)
    by (simp_all add: requestPermission_catch_def take_request_def settle_promise_def
        display_alert_def Let_def)
next
  assume a: "i < length (permission_requests v) \<and> (n, p) = permission_requests v ! i
      \<and> p < length (promises v) \<and> promises v ! p = Pending
      \<and> (DOMTrigger (g_spec v) \<noteq> None \<or> n \<noteq> 0)"
  then have np: "fst (permission_requests v ! i) = n" "snd (permission_requests v ! i) = p"
    by (metis fst_conv, metis snd_conv)
  from a np show "promises (step (PermissionError i e1) v) ! p = Rejected"
    by (auto simp add: requestPermission_catch_def take_request_def settle_promise_def
        display_alert_def Let_def)
  from a np show "click_listeners (step (PermissionError i e1) v) = click_listeners v"
    by (auto simp add: requestPermission_catch_def take_request_def settle_promise_def
        display_alert_def Let_def)
  from a show "permission_requests (step (PermissionError i e1) v)
      = take i (permission_requests v) @ drop (Suc i) (permission_requests v)"
    by (simp add: take_request_def)
next
  have "retry_bounded (run es (loaded doe wo'))"
    by (rule reachable_retry_bounded)
  then show "list_all (\<lambda>r. fst r \<le> 1) (permission_requests (run es (loaded doe wo')))"
      "list_all retry_count_ok (click_listeners (run es (loaded doe wo')))"
    by (simp_all add: retry_bounded_def)
qed

theorem retry_at_most_once_witness:
  "errorType ''NotAllowedError: no gesture'' = ''NOTALLOWEDERROR''
   \<and> DOMTrigger defaultSpec = None
   \<and> click_listeners (run [Init defaultSpec, PermissionError 0 ''NotAllowedError: no gesture'']
        (loaded (DOE_defined True) (Num 0))) = [(Window, Retry Window 0 0)]
   \<and> permission_requests (step (Click Window)
        (run [Init defaultSpec, PermissionError 0 ''NotAllowedError: no gesture'']
          (loaded (DOE_defined True) (Num 0)))) = [(1, 0)]
   \<and> promises (step (PermissionError 0 ''NotAllowedError: no gesture'') (step (Click Window)
        (run [Init defaultSpec, PermissionError 0 ''NotAllowedError: no gesture'']
          (loaded (DOE_defined True) (Num 0))))) = [Rejected]
   \<and> click_listeners (step (PermissionError 0 ''NotAllowedError: no gesture'')
        (step (Click Window)
          (run [Init defaultSpec, PermissionError 0 ''NotAllowedError: no gesture'']
            (loaded (DOE_defined True) (Num 0))))) = []
   \<and> DOMTrigger (g_spec (run [Init (defaultSpec\<lparr> DOMTrigger := Some 7 \<rparr>), Click (Elem 7)]
        (loaded (DOE_defined True) (Num 0)))) \<noteq> None
   \<and> promises (step (PermissionError 0 ''NotAllowedError: no gesture'')
        (run [Init (defaultSpec\<lparr> DOMTrigger := Some 7 \<rparr>), Click (Elem 7)]
          (loaded (DOE_defined True) (Num 0)))) ! 0 = Rejected"
proof -
  let ?v = "run [Init (defaultSpec\<lparr> DOMTrigger := Some 7 \<rparr>), Click (Elem 7)]
          (loaded (DOE_defined True) (Num 0))"
  have h: "errorType ''NotAllowedError: no gesture'' = ''NOTALLOWEDERROR''"
    by (rule errorType_NotAllowed)
  have d: "DOMTrigger defaultSpec = None"
    by (simp add: defaultSpec_def)
  have r: "Window = (case DOMRetryTrigger defaultSpec of None \<Rightarrow> Window | Some el \<Rightarrow> Elem el)"
    by (simp add: defaultSpec_def)
  have v: "0 < length (permission_requests ?v)" "(0, 0) = permission_requests ?v ! 0"
      "0 < length (promises ?v)" "promises ?v ! 0 = Pending" "DOMTrigger (g_spec ?v) \<noteq> None"
    by (simp_all add: flow_defs loaded_def defaultSpec_def Let_def)
  show ?thesis
    using h d v retry_at_most_once [OF h h d r refl refl refl, where wo = "Num 0" and i = 0
        and v = ?v and n = 0 and p = 0 and es = "[]" and doe = "DOE_defined False"
        and wo' = Undefined]
    by (simp del: run.simps step.simps)
qed

section \<open>The orientation transformer\<close>

text \<open>
  C3. Specification: an event with any of alpha, beta, gamma null or undefined (absent) is
  discarded and the stored sample stays. The handler tests \<^verbatim>\<open>=== null\<close> only: after a
  complete sample is stored, an event without \<^verbatim>\<open>alpha\<close> (and no null field) replaces it, and
  \<^verbatim>\<open>update()\<close> returns a different tuple.
\<close>

theorem undefined_sample_stored_counterexample:
  "g_deviceOrientation (onDeviceOrientationChangeEvent sample_partial
       (run [Init defaultSpec, Sensor sample_full] (loaded (DOE_defined False) (Num 0))))
     \<noteq> g_deviceOrientation
         (run [Init defaultSpec, Sensor sample_full] (loaded (DOE_defined False) (Num 0)))
   \<and> fst (update (onDeviceOrientationChangeEvent sample_partial
       (run [Init defaultSpec, Sensor sample_full] (loaded (DOE_defined False) (Num 0)))))
     \<noteq> fst (update (run [Init defaultSpec, Sensor sample_full] (loaded (DOE_defined False) (Num 0))))"
  by (simp add: flow_defs loaded_def defaultSpec_def Let_def sample_full_def sample_partial_def
      update_def get_deviceEulerAngle_def property_def d2r_def)

text \<open>
  C3, as amended: an event in which any of alpha, beta, gamma is \<^verbatim>\<open>null\<close> is discarded: the
  world is unchanged, so \<^verbatim>\<open>update()\<close> returns what it returned before. An event with no null
  field is stored, also when a field is absent.
\<close>

theorem null_sample_discarded:
  "(alpha ev = Null \<or> beta ev = Null \<or> gamma ev = Null \<longrightarrow>
      onDeviceOrientationChangeEvent ev w = w
      \<and> update (onDeviceOrientationChangeEvent ev w) = update w)
   \<and> (alpha ev \<noteq> Null \<and> beta ev \<noteq> Null \<and> gamma ev \<noteq> Null \<longrightarrow>
      g_deviceOrientation (onDeviceOrientationChangeEvent ev w) = Some ev)"
  by (simp add: onDeviceOrientationChangeEvent_def)

theorem null_sample_discarded_witness:
  "alpha sample_desktop = Null
   \<and> onDeviceOrientationChangeEvent sample_desktop
        (run [Init defaultSpec, Sensor sample_full] (loaded (DOE_defined False) (Num 0)))
       = run [Init defaultSpec, Sensor sample_full] (loaded (DOE_defined False) (Num 0))
   \<and> alpha sample_partial \<noteq> Null \<and> beta sample_partial \<noteq> Null \<and> gamma sample_partial \<noteq> Null
   \<and> g_deviceOrientation (onDeviceOrientationChangeEvent sample_partial
        (loaded (DOE_defined False) (Num 0))) = Some sample_partial"
  using null_sample_discarded [of sample_desktop
      "run [Init defaultSpec, Sensor sample_full] (loaded (DOE_defined False) (Num 0))"]
    null_sample_discarded [of sample_partial "loaded (DOE_defined False) (Num 0)"]
  by (simp add: sample_desktop_def sample_partial_def)

text \<open>
  C8. In a reachable world with no math capability configured, the subscription enabled and
  a sample stored, \<^verbatim>\<open>update()\<close> returns the four numbers alpha, beta, gamma, screen offset: each
  angle is the stored field times \<open>\<pi>/180\<close>, an absent field giving 0, and the offset is the
  current \<^verbatim>\<open>_screenOrientation\<close>. The tuple returned is the buffer \<^verbatim>\<open>_angles\<close> itself, which
  holds these four numbers afterwards; nothing else changes.
\<close>

theorem update_raw_angles:
  assumes "w = run es (loaded doe wo)" and "THREE (g_spec w) = None"
    and "g_isEnabled w" and "g_deviceOrientation w = Some d"
  shows "update w =
     (Inr (Some (Angles [radians_or_zero (alpha d), radians_or_zero (beta d),
                         radians_or_zero (gamma d), g_screenOrientation w])),
      w\<lparr> g_angles := [radians_or_zero (alpha d), radians_or_zero (beta d),
                       radians_or_zero (gamma d), g_screenOrientation w] \<rparr>)"
proof -
  have "instances_ready w"
    using assms(1) by (simp add: reachable_instances_ready)
  with assms(2) have "\<not> g_isThree w" and "length (g_angles w) = 4"
    by (simp_all add: instances_ready_def)
  with assms(3,4) show ?thesis
    by (simp add: update_def Let_def get_deviceEulerAngle_radians update_four)
qed

theorem update_raw_angles_witness:
  "THREE (g_spec (run [Init defaultSpec, Sensor sample_partial, Rotate (Num 90)]
       (loaded (DOE_defined False) (Num 0)))) = None
   \<and> g_isEnabled (run [Init defaultSpec, Sensor sample_partial, Rotate (Num 90)]
       (loaded (DOE_defined False) (Num 0)))
   \<and> g_deviceOrientation (run [Init defaultSpec, Sensor sample_partial, Rotate (Num 90)]
       (loaded (DOE_defined False) (Num 0))) = Some sample_partial
   \<and> fst (update (run [Init defaultSpec, Sensor sample_partial, Rotate (Num 90)]
       (loaded (DOE_defined False) (Num 0))))
     = Inr (Some (Angles [0, 10 * (pi / 180), 20 * (pi / 180), 90 * (pi / 180)]))"
proof -
  let ?w = "run [Init defaultSpec, Sensor sample_partial, Rotate (Num 90)]
       (loaded (DOE_defined False) (Num 0))"
  have h: "THREE (g_spec ?w) = None" "g_isEnabled ?w" "g_deviceOrientation ?w = Some sample_partial"
    by (simp_all add: flow_defs loaded_def defaultSpec_def Let_def sample_partial_def)
  have s: "g_screenOrientation ?w = 90 * (pi / 180)"
    by (simp add: flow_defs loaded_def defaultSpec_def Let_def sample_partial_def d2r_def)
  show ?thesis
    using h s update_raw_angles [OF refl h]
    by (simp add: sample_partial_def)
qed

text \<open>
  C7. In a reachable world, \<^verbatim>\<open>compute_rotationX/Y/Z\<close> throw the error
  \<^verbatim>\<open>'Please provide THREE'\<close>, leaving the world as it was, exactly when no math capability is
  configured; with a capability \<open>T\<close> configured they return the x, y or z component of
  \<open>T\<close>'s Euler decomposition of the quaternion in the order YXZ.
\<close>

theorem compute_rotation_requires_three:
  assumes "w = run es (loaded doe wo)"
  shows "(THREE (g_spec w) = None \<longrightarrow>
            compute_rotationX q w = (Inl (Error ''Please provide THREE''), w)
          \<and> compute_rotationY q w = (Inl (Error ''Please provide THREE''), w)
          \<and> compute_rotationZ q w = (Inl (Error ''Please provide THREE''), w))
       \<and> (THREE (g_spec w) = Some T \<longrightarrow>
            fst (compute_rotationX q w) = Inr (ex (setFromQuaternion T q ''YXZ''))
          \<and> fst (compute_rotationY q w) = Inr (ey (setFromQuaternion T q ''YXZ''))
          \<and> fst (compute_rotationZ q w) = Inr (ez (setFromQuaternion T q ''YXZ'')))
       \<and> ((\<exists>e. fst (compute_rotationX q w) = Inl e) \<longleftrightarrow> THREE (g_spec w) = None)
       \<and> ((\<exists>e. fst (compute_rotationY q w) = Inl e) \<longleftrightarrow> THREE (g_spec w) = None)
       \<and> ((\<exists>e. fst (compute_rotationZ q w) = Inl e) \<longleftrightarrow> THREE (g_spec w) = None)"
proof -
  have "instances_ready w"
    using assms by (simp add: reachable_instances_ready)
  then show ?thesis
    by (cases "THREE (g_spec w)")
      (auto simp add: instances_ready_def compute_rotationX_def compute_rotationY_def
        compute_rotationZ_def compute_rotation_def Let_def split: option.splits)
qed

theorem compute_rotation_requires_three_witness:
  "fst (compute_rotationX \<lparr> qx = 0, qy = 0, qz = 0, qw = 1 \<rparr>
         (run [Init spec_three] (loaded (DOE_defined False) (Num 0))))
     = Inr (ex (quaternion_euler \<lparr> qx = 0, qy = 0, qz = 0, qw = 1 \<rparr> ''YXZ''))
   \<and> fst (compute_rotationY \<lparr> qx = 0, qy = 0, qz = 0, qw = 1 \<rparr>
         (run [Init spec_three, Init defaultSpec] (loaded (DOE_defined False) (Num 0))))
     = Inl (Error ''Please provide THREE'')"
  using compute_rotation_requires_three [OF refl, where es = "[Init spec_three]"
      and doe = "DOE_defined False" and wo = "Num 0" and T = example_three
      and q = "\<lparr> qx = 0, qy = 0, qz = 0, qw = 1 \<rparr>"]
    compute_rotation_requires_three [OF refl, where es = "[Init spec_three, Init defaultSpec]"
      and doe = "DOE_defined False" and wo = "Num 0" and q = "\<lparr> qx = 0, qy = 0, qz = 0, qw = 1 \<rparr>"]
  by (simp add: flow_defs loaded_def defaultSpec_def spec_three_def example_three_def Let_def)

text \<open>
  C5. In a reachable world with a math capability \<open>T\<close> configured, the subscription
  enabled and a sample stored, \<^verbatim>\<open>update()\<close> returns the quaternion that \<open>T\<close> builds from the
  Euler triple (x = beta, y = alpha, z = -gamma, in radians) in order YXZ, multiplied on the
  right by the rotation of -90 degrees about X, then on the right by \<open>T\<close>'s axis-angle
  quaternion about (0,0,1) for the angle minus the screen offset. The fixed factor
  \<open>(- sqrt (1/2), 0, 0, sqrt (1/2))\<close> of the source is that rotation about X.
\<close>

theorem update_quaternion_composition:
  assumes "w = run es (loaded doe wo)" and "THREE (g_spec w) = Some T"
    and "g_isEnabled w" and "g_deviceOrientation w = Some d"
  shows "fst (update w) =
     Inr (Some (Quat
       (multiply T
         (multiply T
           (setFromEuler T \<lparr> ex = radians_or_zero (beta d), ey = radians_or_zero (alpha d),
                              ez = - radians_or_zero (gamma d), order = ''YXZ'' \<rparr>)
           (rotation_about \<lparr> vx = 1, vy = 0, vz = 0 \<rparr> (- (pi / 2))))
         (setFromAxisAngle T \<lparr> vx = 0, vy = 0, vz = 1 \<rparr> (- g_screenOrientation w)))))
     \<and> rotation_about \<lparr> vx = 1, vy = 0, vz = 0 \<rparr> (- (pi / 2))
         = \<lparr> qx = - sqrt (1 / 2), qy = 0, qz = 0, qw = sqrt (1 / 2) \<rparr>"
proof -
  have "instances_ready w"
    using assms(1) by (simp add: reachable_instances_ready)
  with assms(2) obtain ti where ti: "g_threeInstances w = Some ti" "lib ti = T"
      "q1 ti = \<lparr> qx = - sqrt (1 / 2), qy = 0, qz = 0, qw = sqrt (1 / 2) \<rparr>"
      "zee ti = \<lparr> vx = 0, vy = 0, vz = 1 \<rparr>" and three: "g_isThree w"
    by (auto simp add: instances_ready_def split: option.splits)
  from assms(3,4) ti three show ?thesis
    by (simp add: update_def Let_def set_quaternion_def get_deviceEulerAngle_radians
        quarter_turn_about_x)
qed

theorem update_quaternion_composition_witness:
  "THREE (g_spec (run [Init spec_three, Sensor sample_full] (loaded (DOE_defined False) (Num 90))))
     = Some example_three
   \<and> g_isEnabled (run [Init spec_three, Sensor sample_full] (loaded (DOE_defined False) (Num 90)))
   \<and> g_deviceOrientation (run [Init spec_three, Sensor sample_full] (loaded (DOE_defined False) (Num 90)))
     = Some sample_full
   \<and> fst (update (run [Init spec_three, Sensor sample_full] (loaded (DOE_defined False) (Num 90))))
     = Inr (Some (Quat
        (hamilton
          (hamilton
            (euler_quaternion \<lparr> ex = 45 * (pi / 180), ey = 90 * (pi / 180),
                                 ez = - (- 30 * (pi / 180)), order = ''YXZ'' \<rparr>)
            \<lparr> qx = - sqrt (1 / 2), qy = 0, qz = 0, qw = sqrt (1 / 2) \<rparr>)
          (rotation_about \<lparr> vx = 0, vy = 0, vz = 1 \<rparr> (- (90 * (pi / 180)))))))"
proof -
  let ?w = "run [Init spec_three, Sensor sample_full] (loaded (DOE_defined False) (Num 90))"
  have h: "THREE (g_spec ?w) = Some example_three" "g_isEnabled ?w"
      "g_deviceOrientation ?w = Some sample_full"
    by (simp_all add: flow_defs loaded_def defaultSpec_def spec_three_def Let_def sample_full_def)
  have s: "g_screenOrientation ?w = 90 * (pi / 180)"
    by (simp add: flow_defs loaded_def defaultSpec_def spec_three_def Let_def sample_full_def
        d2r_def)
  show ?thesis
    using h update_quaternion_composition [OF refl h, unfolded s]
    by (simp add: sample_full_def example_three_def del: run.simps)
qed



text \<open>
  C2. Specification: \<^verbatim>\<open>update()\<close> returns \<^verbatim>\<open>null\<close> if and only if the subscription is disabled or
  no valid sample has ever been received, a valid sample having all three fields present
  and non-null. After \<^verbatim>\<open>init\<close> on a platform without the permission function and one event
  without \<^verbatim>\<open>alpha\<close>, the subscription is enabled, the only event received is not valid, and
  \<^verbatim>\<open>update()\<close> does not return \<^verbatim>\<open>null\<close>.
\<close>

theorem update_partial_sample_counterexample:
  "g_isEnabled (run [Init defaultSpec, Sensor sample_partial] (loaded (DOE_defined False) (Num 0)))
   \<and> received [Init defaultSpec, Sensor sample_partial] (loaded (DOE_defined False) (Num 0))
       = [sample_partial]
   \<and> \<not> list_ex valid_sample
         (received [Init defaultSpec, Sensor sample_partial] (loaded (DOE_defined False) (Num 0)))
   \<and> fst (update (run [Init defaultSpec, Sensor sample_partial] (loaded (DOE_defined False) (Num 0))))
       \<noteq> Inr None"
  by (simp add: flow_defs loaded_def defaultSpec_def Let_def sample_partial_def valid_sample_def
      update_def)

text \<open>
  C2, as amended: in every world reachable from the loaded module, \<^verbatim>\<open>update()\<close> returns \<^verbatim>\<open>null\<close>
  if and only if the subscription is disabled or no sample without a null field has ever
  been received (absent fields do not count against a sample); and in any world,
  \<^verbatim>\<open>destroy()\<close> followed by \<^verbatim>\<open>update()\<close> returns \<^verbatim>\<open>null\<close>.
\<close>

theorem update_null_iff:
  "(fst (update (run es (loaded doe wo))) = Inr None \<longleftrightarrow>
      \<not> g_isEnabled (run es (loaded doe wo))
      \<or> \<not> list_ex non_null (received es (loaded doe wo)))
   \<and> fst (update (destroy v)) = Inr None"
proof
  let ?w = "run es (loaded doe wo)"
  have ready: "instances_ready ?w"
    by (simp add: reachable_instances_ready)
  have stored: "g_deviceOrientation ?w = None \<longleftrightarrow> \<not> list_ex non_null (received es (loaded doe wo))"
    by (simp add: run_deviceOrientation_None loaded_def)
  have "fst (update ?w) = Inr None \<longleftrightarrow> \<not> g_isEnabled ?w \<or> g_deviceOrientation ?w = None"
    using ready
    by (auto simp add: update_def Let_def instances_ready_def split: option.splits)
  with stored show "fst (update ?w) = Inr None \<longleftrightarrow>
      \<not> g_isEnabled ?w \<or> \<not> list_ex non_null (received es (loaded doe wo))"
    by simp
next
  show "fst (update (destroy v)) = Inr None"
    by (simp add: update_def destroy_def remove_eventListeners_def split: option.splits)
qed

theorem update_null_iff_witness:
  "g_isEnabled (run [Init defaultSpec, Sensor sample_full] (loaded (DOE_defined False) (Num 0)))
   \<and> list_ex non_null
        (received [Init defaultSpec, Sensor sample_full] (loaded (DOE_defined False) (Num 0)))
   \<and> fst (update (run [Init defaultSpec, Sensor sample_full] (loaded (DOE_defined False) (Num 0))))
       \<noteq> Inr None
   \<and> \<not> list_ex non_null
        (received [Init defaultSpec, Sensor sample_desktop] (loaded (DOE_defined False) (Num 0)))
   \<and> fst (update (run [Init defaultSpec, Sensor sample_desktop] (loaded (DOE_defined False) (Num 0))))
       = Inr None
   \<and> fst (update (destroy
        (run [Init defaultSpec, Sensor sample_full] (loaded (DOE_defined False) (Num 0))))) = Inr None"
proof -
  let ?w = "loaded (DOE_defined False) (Num 0)"
  have h: "g_isEnabled (run [Init defaultSpec, Sensor sample_full] ?w)"
      "list_ex non_null (received [Init defaultSpec, Sensor sample_full] ?w)"
      "\<not> list_ex non_null (received [Init defaultSpec, Sensor sample_desktop] ?w)"
    by (simp_all add: flow_defs loaded_def defaultSpec_def Let_def non_null_def sample_full_def
        sample_desktop_def)
  show ?thesis
    using h update_null_iff [of "[Init defaultSpec, Sensor sample_full]" "DOE_defined False" "Num 0"
        "run [Init defaultSpec, Sensor sample_full] ?w"]
      update_null_iff [of "[Init defaultSpec, Sensor sample_desktop]" "DOE_defined False" "Num 0"]
    by (simp del: run.simps received.simps)
qed

text \<open>
  C9. Specification: the screen offset always equals the platform-reported screen rotation
  times \<open>\<pi>/180\<close>. The offset is recomputed only when \<^verbatim>\<open>onScreenOrientationChangeEvent\<close> runs,
  and its listener is attached only by \<^verbatim>\<open>add_eventListeners\<close>: a rotation to 90 degrees while
  the permission request is still in flight is not seen, and once the permission is granted
  and a sample stored the subscription is enabled with \<^verbatim>\<open>window.orientation\<close> 90 and offset 0,
  which \<^verbatim>\<open>update()\<close> returns.
\<close>

theorem screen_offset_stale_counterexample:
  "window_orientation (run [Init defaultSpec, Rotate (Num 90), PermissionAnswer 0 ''granted'',
       Sensor sample_full] (loaded (DOE_defined True) (Num 0))) = Num 90
   \<and> g_isEnabled (run [Init defaultSpec, Rotate (Num 90), PermissionAnswer 0 ''granted'',
       Sensor sample_full] (loaded (DOE_defined True) (Num 0)))
   \<and> g_screenOrientation (run [Init defaultSpec, Rotate (Num 90), PermissionAnswer 0 ''granted'',
       Sensor sample_full] (loaded (DOE_defined True) (Num 0))) = 0
   \<and> g_screenOrientation (run [Init defaultSpec, Rotate (Num 90), PermissionAnswer 0 ''granted'',
       Sensor sample_full] (loaded (DOE_defined True) (Num 0))) \<noteq> 90 * (pi / 180)
   \<and> fst (update (run [Init defaultSpec, Rotate (Num 90), PermissionAnswer 0 ''granted'',
       Sensor sample_full] (loaded (DOE_defined True) (Num 0))))
     = Inr (Some (Angles [90 * (pi / 180), 45 * (pi / 180), - 30 * (pi / 180), 0]))"
  by (simp add: flow_defs loaded_def defaultSpec_def Let_def sample_full_def d2r_def update_def
      get_deviceEulerAngle_def property_def)

text \<open>
  C9, as amended: whenever \<^verbatim>\<open>onScreenOrientationChangeEvent\<close> runs, the offset becomes the
  reported rotation (absent or null read as 0) times \<open>\<pi>/180\<close>; so in every reachable world it
  is \<open>\<pi>/180\<close> times the report read at the handler's latest run (on \<^verbatim>\<open>init\<close>, and on each
  rotation event delivered while the listener is attached), and 0 before the first. No other
  event changes it: \<^verbatim>\<open>onDeviceOrientationChangeEvent\<close>, \<^verbatim>\<open>update()\<close> and \<^verbatim>\<open>destroy()\<close> leave it as
  it is.
\<close>

theorem screen_offset_follows_reads:
  "g_screenOrientation (run es (loaded doe wo)) =
     (if screen_reads es (loaded doe wo) = [] then 0
      else or_zero (last (screen_reads es (loaded doe wo))) * (pi / 180))
   \<and> g_screenOrientation (onScreenOrientationChangeEvent w)
       = or_zero (window_orientation w) * (pi / 180)
   \<and> g_screenOrientation (onDeviceOrientationChangeEvent ev w) = g_screenOrientation w
   \<and> g_screenOrientation (snd (update w)) = g_screenOrientation w
   \<and> g_screenOrientation (destroy w) = g_screenOrientation w
   \<and> (case e of
         Init spec \<Rightarrow> True
       | Rotate r \<Rightarrow> True
       | _ \<Rightarrow> g_screenOrientation (step e w) = g_screenOrientation w)"
proof (intro conjI)
  show "g_screenOrientation (run es (loaded doe wo)) =
     (if screen_reads es (loaded doe wo) = [] then 0
      else or_zero (last (screen_reads es (loaded doe wo))) * (pi / 180))"
    by (simp add: run_screenOrientation d2r_def) (simp add: loaded_def)
  show "g_screenOrientation (onScreenOrientationChangeEvent w)
       = or_zero (window_orientation w) * (pi / 180)"
    by (simp add: onScreenOrientationChangeEvent_def d2r_def)
  show "case e of
         Init spec \<Rightarrow> True
       | Rotate r \<Rightarrow> True
       | _ \<Rightarrow> g_screenOrientation (step e w) = g_screenOrientation w"
    by (cases e) (simp_all add: step_screenOrientation del: step.simps)
qed simp_all

theorem screen_offset_follows_reads_witness:
  "screen_reads [Init defaultSpec, Rotate (Num 90), Sensor sample_full, Update, Destroy,
       Rotate (Num 180)] (loaded (DOE_defined False) Undefined) = [Undefined, Num 90]
   \<and> g_screenOrientation (run [Init defaultSpec, Rotate (Num 90), Sensor sample_full, Update,
       Destroy, Rotate (Num 180)] (loaded (DOE_defined False) Undefined)) = 90 * (pi / 180)
   \<and> g_screenOrientation (step Destroy (loaded (DOE_defined False) Undefined))
       = g_screenOrientation (loaded (DOE_defined False) Undefined)"
proof -
  let ?es = "[Init defaultSpec, Rotate (Num 90), Sensor sample_full, Update, Destroy,
       Rotate (Num 180)]"
  have h: "screen_reads ?es (loaded (DOE_defined False) Undefined) = [Undefined, Num 90]"
    by (simp add: flow_defs loaded_def defaultSpec_def Let_def sample_full_def update_def)
  show ?thesis
    using h screen_offset_follows_reads [of ?es "DOE_defined False" Undefined
        "loaded (DOE_defined False) Undefined" sample_full Destroy, unfolded h]
    by (simp del: run.simps step.simps)
qed







end
